(* ===== verification/Prelude.thy ===== *)
theory Prelude
  imports Main
begin

text \<open>
  Shared vocabulary of the development: the collections of equations that the component
  theories fill and the component proofs use, an error-threading bind on sums (a JavaScript
  exception that propagates to the enclosing \<open>catch\<close>), \<open>Array.prototype.join\<close> on strings,
  the decimal text of numbers and its parser, and removal of one element of a list (one
  request leaving the set of requests in flight).
\<close>

named_theorems js_simps "evaluation equations of the JavaScript value model"
named_theorems app_simps "equations of the component's handlers and continuations"
named_theorems url_simps "equations of the URL builders"

type_synonym url = string

subsection \<open>Definitions\<close>

definition js_bind :: "'e + 'a \<Rightarrow> ('a \<Rightarrow> 'e + 'b) \<Rightarrow> 'e + 'b" where
  "js_bind m f = (case m of Inl e \<Rightarrow> Inl e | Inr a \<Rightarrow> f a)"

fun join_with :: "string \<Rightarrow> string list \<Rightarrow> string" where
  "join_with sep [] = []"
| "join_with sep [x] = x"
| "join_with sep (x # y # xs) = x @ sep @ join_with sep (y # xs)"

definition digit_char :: "nat \<Rightarrow> char" where
  "digit_char d = ''0123456789'' ! d"

definition char_digit :: "char \<Rightarrow> nat option" where
  "char_digit c = (let k = of_char c :: nat in if 48 \<le> k \<and> k < 58 then Some (k - 48) else None)"

fun show_nat :: "nat \<Rightarrow> string" where
  "show_nat n = (if n < 10 then [digit_char n] else show_nat (n div 10) @ [digit_char (n mod 10)])"

fun parse_digits :: "nat \<Rightarrow> string \<Rightarrow> nat option" where
  "parse_digits acc [] = Some acc"
| "parse_digits acc (c # cs) =
     (case char_digit c of None \<Rightarrow> None | Some d \<Rightarrow> parse_digits (10 * acc + d) cs)"

definition parse_nat :: "string \<Rightarrow> nat option" where
  "parse_nat s = (if s = [] then None else parse_digits 0 s)"

definition remove_nth :: "nat \<Rightarrow> 'a list \<Rightarrow> 'a list" where
  "remove_nth i xs = take i xs @ drop (Suc i) xs"

declare show_nat.simps [simp del]

subsection \<open>Exceptions as the left summand\<close>

lemma js_bind_Inl [simp]: "js_bind (Inl e) f = Inl e"
  by (simp add: js_bind_def)

lemma js_bind_Inr [simp]: "js_bind (Inr a) f = f a"
  by (simp add: js_bind_def)

lemma js_bind_eq_Inr:
  "js_bind m f = Inr b \<longleftrightarrow> (\<exists>a. m = Inr a \<and> f a = Inr b)"
  by (cases m) simp_all

subsection \<open>Joining strings\<close>

lemma join_with_append_single [simp]:
  "xs \<noteq> [] \<Longrightarrow> join_with sep (xs @ [y]) = join_with sep xs @ sep @ y"
proof (induction sep xs rule: join_with.induct)
  case (3 sep x z zs)
  then show ?case by simp
qed simp_all

lemma set_join_with: "set (join_with sep xs) \<subseteq> set sep \<union> (\<Union>x\<in>set xs. set x)"
  by (induction sep xs rule: join_with.induct) auto

lemma join_with_longer:
  "sep \<noteq> [] \<Longrightarrow> 2 \<le> length xs \<Longrightarrow> x \<in> set xs \<Longrightarrow> length x < length (join_with sep xs)"
proof (induction sep xs rule: join_with.induct)
  case (3 sep a b xs)
  show ?case
  proof (cases "x = a")
    case True
    with "3.prems"(1) show ?thesis by simp
  next
    case False
    with "3.prems"(3) have x: "x \<in> set (b # xs)" by simp
    show ?thesis
    proof (cases xs)
      case Nil
      with x "3.prems"(1) show ?thesis by simp
    next
      case (Cons c cs)
      with "3.IH" "3.prems"(1) x have "length x < length (join_with sep (b # xs))" by simp
      then show ?thesis by simp
    qed
  qed
qed simp_all

lemma map_of_join_keys:
  assumes "length ps \<noteq> 1"
  shows "map_of ps (join_with [c] (map fst ps)) = None"
proof (cases "ps = []")
  case False
  with assms have two: "2 \<le> length (map fst ps)"
    by (cases ps) (auto simp: Suc_le_eq)
  show ?thesis
  proof (rule ccontr)
    assume "map_of ps (join_with [c] (map fst ps)) \<noteq> None"
    then have "join_with [c] (map fst ps) \<in> set (map fst ps)"
      by (auto dest: map_of_SomeD intro: rev_image_eqI)
    with two join_with_longer [of "[c]" "map fst ps"] show False by fastforce
  qed
qed simp

subsection \<open>Decimal text of natural numbers\<close>

lemma char_digit_digit_char [simp]: "d < 10 \<Longrightarrow> char_digit (digit_char d) = Some d"
proof -
  assume "d < 10"
  then have "d \<in> {0, 1, 2, 3, 4, 5, 6, 7, 8, 9}" by auto
  then show ?thesis by (auto simp: char_digit_def digit_char_def)
qed

lemma parse_digits_append:
  "parse_digits acc (xs @ ys) = (case parse_digits acc xs of None \<Rightarrow> None | Some a \<Rightarrow> parse_digits a ys)"
  by (induction acc xs rule: parse_digits.induct) (simp_all split: option.splits)

lemma show_nat_nonempty [simp]: "show_nat n \<noteq> []"
  by (subst show_nat.simps) simp

lemma parse_digits_show_nat: "parse_digits acc (show_nat n) = Some (acc * 10 ^ length (show_nat n) + n)"
proof (induction n arbitrary: acc rule: show_nat.induct)
  case (1 n)
  show ?case
  proof (cases "n < 10")
    case True
    then show ?thesis by (subst (1 2) show_nat.simps) simp
  next
    case False
    then have eq: "show_nat n = show_nat (n div 10) @ [digit_char (n mod 10)]"
      by (subst show_nat.simps) simp
    have "acc * 10 ^ length (show_nat (n div 10)) * 10 + n div 10 * 10 + n mod 10
          = acc * (10 ^ length (show_nat (n div 10)) * 10) + n"
      by (simp add: algebra_simps)
    with False "1.IH" show ?thesis
      by (simp add: eq parse_digits_append algebra_simps)
  qed
qed

lemma parse_nat_show_nat [simp]: "parse_nat (show_nat n) = Some n"
  by (simp add: parse_nat_def parse_digits_show_nat)

lemma show_nat_char_digit: "c \<in> set (show_nat n) \<Longrightarrow> char_digit c \<noteq> None"
proof (induction n rule: show_nat.induct)
  case (1 n)
  then show ?case
    by (cases "n < 10") (subst (asm) show_nat.simps, auto)+
qed

lemma show_nat_no_char:
  assumes "char_digit c = None"
  shows "c \<notin> set (show_nat n)"
  using assms show_nat_char_digit by blast

lemma show_nat_inj: "show_nat m = show_nat n \<Longrightarrow> m = n"
  by (metis option.inject parse_nat_show_nat)

subsection \<open>Removing one element of a list\<close>

lemma set_remove_nth: "set (remove_nth i xs) \<subseteq> set xs"
  by (auto simp: remove_nth_def dest: in_set_takeD in_set_dropD)

lemma length_remove_nth [simp]: "i < length xs \<Longrightarrow> length (remove_nth i xs) = length xs - 1"
  by (simp add: remove_nth_def)

lemma nth_remove_nth_less [simp]:
  "i < j \<Longrightarrow> j < length xs \<Longrightarrow> remove_nth j xs ! i = xs ! i"
  by (simp add: remove_nth_def nth_append)

lemma remove_nth_Cons_0 [simp]: "remove_nth 0 (x # xs) = xs"
  by (simp add: remove_nth_def)

lemma remove_nth_Cons_Suc [simp]: "remove_nth (Suc i) (x # xs) = x # remove_nth i xs"
  by (simp add: remove_nth_def)

lemma those_append: "those xs = Some a \<Longrightarrow> those ys = Some b \<Longrightarrow> those (xs @ ys) = Some (a @ b)"
  by (induction xs arbitrary: a) (auto split: option.splits)

lemma those_length: "those xs = Some ys \<Longrightarrow> length ys = length xs"
  by (induction xs arbitrary: ys) (auto split: option.splits)

lemma those_nth: "those xs = Some ys \<Longrightarrow> i < length xs \<Longrightarrow> xs ! i = Some (ys ! i)"
  by (induction xs arbitrary: ys i) (auto split: option.splits nat.splits simp: nth_Cons)

lemma map_remove_nth: "map f (remove_nth i xs) = remove_nth i (map f xs)"
  by (simp add: remove_nth_def take_map drop_map)

lemma those_remove_nth: "those xs = Some ys \<Longrightarrow> those (remove_nth i xs) = Some (remove_nth i ys)"
proof (induction xs arbitrary: ys i)
  case Nil
  then show ?case by (simp add: remove_nth_def)
next
  case (Cons x xs)
  then show ?case by (cases i) (auto split: option.splits)
qed

end
