(* ===== verification/JS_Values.thy ===== *)
theory JS_Values
  imports Prelude
begin

text \<open>
  The JavaScript values the component handles and the parts of the language it relies on:
  the JSON a response carries, property access that throws a \<open>TypeError\<close> on \<open>undefined\<close>
  and \<open>null\<close>, \<open>Object.keys\<close>, the string conversion of template literals and property
  keys, the numeric conversion of \<open>x > 0\<close>, truthiness for \<open>?:\<close> and \<open>&&\<close>, and
  the way React renders a value as a child. Numbers are integers (a page id, a length); an
  object is the list of its own properties in property order, each key once, as
  \<open>JSON.parse\<close> builds it. Strings are lists of bytes (UTF-8); the code reads the length of
  no string whose bytes and UTF-16 units differ.
\<close>

datatype jsval =
    JUndefined
  | JNull
  | JBool bool
  | JNum int
  | JStr string
  | JArr "jsval list"
  | JObj "(string \<times> jsval) list"

datatype js_error =
    TypeError string  \<comment> \<open>reading the named property of \<open>undefined\<close> or \<open>null\<close>\<close>
  | InvalidReactChild  \<comment> \<open>React: objects are not valid as a React child\<close>
  | NetworkError  \<comment> \<open>the rejection of an \<open>axios\<close> request\<close>

subsection \<open>Conversions\<close>

definition show_int :: "int \<Rightarrow> string" where
  "show_int n = (if n < 0 then CHR ''-'' # show_nat (nat (- n)) else show_nat (nat n))"

definition parse_int :: "string \<Rightarrow> int option" where
  "parse_int s =
     (if s \<noteq> [] \<and> hd s = CHR ''-'' then map_option (\<lambda>n. - int n) (parse_nat (tl s))
      else map_option int (parse_nat s))"

text \<open>A canonical array index: the decimal text of a number, without leading zeros.\<close>

definition array_index :: "string \<Rightarrow> nat option" where
  "array_index k = (case parse_nat k of None \<Rightarrow> None | Some i \<Rightarrow> if show_nat i = k then Some i else None)"

fun js_truthy :: "jsval \<Rightarrow> bool" where
  "js_truthy JUndefined = False"
| "js_truthy JNull = False"
| "js_truthy (JBool b) = b"
| "js_truthy (JNum n) = (n \<noteq> 0)"
| "js_truthy (JStr s) = (s \<noteq> [])"
| "js_truthy (JArr xs) = True"
| "js_truthy (JObj ps) = True"

text \<open>\<open>a && b\<close>: the left operand when it is falsy, the right one otherwise.\<close>

definition js_and :: "jsval \<Rightarrow> jsval \<Rightarrow> jsval" where
  "js_and a b = (if js_truthy a then b else a)"

text \<open>
  \<open>ToString\<close>, as a template literal \<open>`${x}`\<close> and a computed property key apply it; an
  array is joined with commas, its \<open>undefined\<close> and \<open>null\<close> elements as empty strings.
\<close>

fun js_to_string :: "jsval \<Rightarrow> string" where
  "js_to_string JUndefined = ''undefined''"
| "js_to_string JNull = ''null''"
| "js_to_string (JBool b) = (if b then ''true'' else ''false'')"
| "js_to_string (JNum n) = show_int n"
| "js_to_string (JStr s) = s"
| "js_to_string (JArr xs) =
     join_with '','' (map (\<lambda>x. if x = JUndefined \<or> x = JNull then [] else js_to_string x) xs)"
| "js_to_string (JObj ps) = ''[object Object]''"

text \<open>
  \<open>ToNumber\<close>, \<open>None\<close> for \<open>NaN\<close>. The text of a string is read as a decimal integer (the
  empty string is 0); an array goes through its string, an object is \<open>NaN\<close>.
\<close>

definition string_to_number :: "string \<Rightarrow> int option" where
  "string_to_number s = (if s = [] then Some 0 else parse_int s)"

fun js_to_number :: "jsval \<Rightarrow> int option" where
  "js_to_number JUndefined = None"
| "js_to_number JNull = Some 0"
| "js_to_number (JBool b) = Some (if b then 1 else 0)"
| "js_to_number (JNum n) = Some n"
| "js_to_number (JStr s) = string_to_number s"
| "js_to_number (JArr xs) = string_to_number (js_to_string (JArr xs))"
| "js_to_number (JObj ps) = None"

text \<open>\<open>x > k\<close> for a number literal \<open>k\<close>: false when \<open>x\<close> converts to \<open>NaN\<close>.\<close>

definition js_greater :: "jsval \<Rightarrow> int \<Rightarrow> bool" where
  "js_greater x k = (case js_to_number x of None \<Rightarrow> False | Some n \<Rightarrow> k < n)"

subsection \<open>Property access\<close>

fun js_get :: "jsval \<Rightarrow> string \<Rightarrow> js_error + jsval" where
  "js_get JUndefined k = Inl (TypeError k)"
| "js_get JNull k = Inl (TypeError k)"
| "js_get (JBool b) k = Inr JUndefined"
| "js_get (JNum n) k = Inr JUndefined"
| "js_get (JStr s) k =
     Inr (if k = ''length'' then JNum (int (length s))
          else case array_index k of
                 Some i \<Rightarrow> if i < length s then JStr [s ! i] else JUndefined
               | None \<Rightarrow> JUndefined)"
| "js_get (JArr xs) k =
     Inr (if k = ''length'' then JNum (int (length xs))
          else case array_index k of
                 Some i \<Rightarrow> if i < length xs then xs ! i else JUndefined
               | None \<Rightarrow> JUndefined)"
| "js_get (JObj ps) k = Inr (case map_of ps k of Some v \<Rightarrow> v | None \<Rightarrow> JUndefined)"

text \<open>A chain of property reads \<open>v.k1.k2...\<close>: the first read of \<open>undefined\<close> throws.\<close>

primrec js_path :: "jsval \<Rightarrow> string list \<Rightarrow> js_error + jsval" where
  "js_path v [] = Inr v"
| "js_path v (k # ks) = js_bind (js_get v k) (\<lambda>w. js_path w ks)"

fun js_object_keys :: "jsval \<Rightarrow> js_error + jsval" where
  "js_object_keys JUndefined = Inl (TypeError ''keys'')"
| "js_object_keys JNull = Inl (TypeError ''keys'')"
| "js_object_keys (JBool b) = Inr (JArr [])"
| "js_object_keys (JNum n) = Inr (JArr [])"
| "js_object_keys (JStr s) = Inr (JArr (map (JStr \<circ> show_nat) [0..<length s]))"
| "js_object_keys (JArr xs) = Inr (JArr (map (JStr \<circ> show_nat) [0..<length xs]))"
| "js_object_keys (JObj ps) = Inr (JArr (map (JStr \<circ> fst) ps))"

subsection \<open>React children\<close>

text \<open>
  A value rendered as a child: strings and numbers as their text, \<open>undefined\<close>, \<open>null\<close>
  and booleans as nothing, an array as its children one after the other; a plain object
  makes React throw.
\<close>

fun react_child :: "jsval \<Rightarrow> js_error + string"
  and react_children :: "jsval list \<Rightarrow> js_error + string" where
  "react_child JUndefined = Inr []"
| "react_child JNull = Inr []"
| "react_child (JBool b) = Inr []"
| "react_child (JNum n) = Inr (show_int n)"
| "react_child (JStr s) = Inr s"
| "react_child (JArr xs) = react_children xs"
| "react_child (JObj ps) = Inl InvalidReactChild"
| "react_children [] = Inr []"
| "react_children (x # xs) = js_bind (react_child x) (\<lambda>a. js_bind (react_children xs) (\<lambda>b. Inr (a @ b)))"

subsection \<open>Lemmas\<close>

lemma parse_int_show_int [simp]: "parse_int (show_int n) = Some n"
proof (cases "n < 0")
  case True
  then show ?thesis by (simp add: show_int_def parse_int_def)
next
  case False
  have "hd (show_nat m) \<noteq> CHR ''-''" for m
    using show_nat_char_digit [of "hd (show_nat m)" m] show_nat_nonempty [of m]
    by (auto simp: char_digit_def)
  then have "parse_int (show_nat (nat n)) = map_option int (parse_nat (show_nat (nat n)))"
    by (simp add: parse_int_def)
  with False show ?thesis by (simp add: show_int_def)
qed

lemma array_index_show_nat [simp]: "array_index (show_nat i) = Some i"
  by (simp add: array_index_def)

lemma js_path_append:
  "js_path v (ks @ ls) = js_bind (js_path v ks) (\<lambda>w. js_path w ls)"
  by (induction ks arbitrary: v) (simp_all add: js_bind_def split: sum.splits)

lemma js_path_snoc:
  "js_path v (ks @ [k]) = js_bind (js_path v ks) (\<lambda>w. js_get w k)"
  by (simp add: js_path_append js_bind_def split: sum.splits)

lemma js_path_Inr_JUndefined_Nil:
  "js_path JUndefined ks = Inr w \<Longrightarrow> ks = [] \<and> w = JUndefined"
  by (cases ks) simp_all

lemma js_greater_JNum [simp]: "js_greater (JNum n) k \<longleftrightarrow> k < n"
  by (simp add: js_greater_def)

lemma js_object_keys_single [simp]:
  "js_object_keys (JObj [(k, v)]) = Inr (JArr [JStr k])"
  by simp

lemma js_to_string_single_key [simp]: "js_to_string (JArr [JStr k]) = k"
  by simp

lemmas [js_simps] = js_get.simps js_path.simps js_object_keys.simps js_to_string.simps
  js_truthy.simps js_and_def js_greater_def react_child.simps react_children.simps

end
