(* ===== verification/Query_String.thy ===== *)
theory Query_String
  imports Prelude
begin

text \<open>
  How the remote endpoint reads a request URL: the query is the text after the first
  \<open>?\<close> and before any \<open>#\<close> (a fragment never leaves the browser), parameters are separated
  by \<open>&\<close>, a name is separated from its value by the first \<open>=\<close>, and a value is
  form-decoded (\<open>+\<close> is a space, \<open>%hh\<close> a byte). A parameter read is the first of
  that name. This is the reading the code relies on when it pastes text into a URL; it is
  not code of the repository.
\<close>

fun split_acc :: "char \<Rightarrow> string \<Rightarrow> string \<Rightarrow> string list" where
  "split_acc c cur [] = [rev cur]"
| "split_acc c cur (x # xs) =
     (if x = c then rev cur # split_acc c [] xs else split_acc c (x # cur) xs)"

definition split_on :: "char \<Rightarrow> string \<Rightarrow> string list" where
  "split_on c s = split_acc c [] s"

definition hex_digit :: "char \<Rightarrow> nat option" where
  "hex_digit c =
     (let k = of_char c :: nat in
      if 48 \<le> k \<and> k < 58 then Some (k - 48)
      else if 65 \<le> k \<and> k < 71 then Some (k - 55)
      else if 97 \<le> k \<and> k < 103 then Some (k - 87)
      else None)"

definition plus_space :: "char \<Rightarrow> char" where
  "plus_space c = (if c = CHR ''+'' then CHR '' '' else c)"

fun form_decode :: "string \<Rightarrow> string" where
  "form_decode [] = []"
| "form_decode (c # d1 # d2 # cs) =
     (case (c = CHR ''%'', hex_digit d1, hex_digit d2) of
        (True, Some h1, Some h2) \<Rightarrow> char_of (16 * h1 + h2) # form_decode cs
      | _ \<Rightarrow> plus_space c # form_decode (d1 # d2 # cs))"
| "form_decode (c # cs) = plus_space c # form_decode cs"

definition query_of :: "url \<Rightarrow> string" where
  "query_of u = takeWhile (\<lambda>c. c \<noteq> CHR ''#'') (drop 1 (dropWhile (\<lambda>c. c \<noteq> CHR ''?'') u))"

definition param_pair :: "string \<Rightarrow> string \<times> string" where
  "param_pair p = (takeWhile (\<lambda>c. c \<noteq> CHR ''='') p, form_decode (drop 1 (dropWhile (\<lambda>c. c \<noteq> CHR ''='') p)))"

definition query_params :: "url \<Rightarrow> (string \<times> string) list" where
  "query_params u = map param_pair (split_on CHR ''&'' (query_of u))"

definition url_param :: "url \<Rightarrow> string \<Rightarrow> string option" where
  "url_param u k = map_of (query_params u) k"

subsection \<open>Lemmas\<close>

lemma split_acc_no_sep:
  "c \<notin> set xs \<Longrightarrow> split_acc c cur (xs @ c # ys) = (rev cur @ xs) # split_acc c [] ys"
  by (induction xs arbitrary: cur) auto

lemma split_acc_no_sep_end: "c \<notin> set xs \<Longrightarrow> split_acc c cur xs = [rev cur @ xs]"
  by (induction xs arbitrary: cur) auto

lemma split_on_no_sep: "c \<notin> set xs \<Longrightarrow> split_on c (xs @ c # ys) = xs # split_on c ys"
  by (simp add: split_on_def split_acc_no_sep)

lemma split_on_no_sep_end: "c \<notin> set xs \<Longrightarrow> split_on c xs = [xs]"
  by (simp add: split_on_def split_acc_no_sep_end)

lemma split_on_join_with:
  "xs \<noteq> [] \<Longrightarrow> \<forall>x\<in>set xs. c \<notin> set x \<Longrightarrow> split_on c (join_with [c] xs) = xs"
proof (induction "[c]" xs rule: join_with.induct)
  case (2 x)
  then show ?case by (simp add: split_on_no_sep_end)
next
  case (3 x y xs)
  then show ?case by (simp add: split_on_no_sep [where ys = "join_with [c] (y # xs)", simplified])
qed simp

lemma split_on_join_with_append:
  "xs \<noteq> [] \<Longrightarrow> \<forall>x\<in>set xs. c \<notin> set x \<Longrightarrow>
   split_on c (join_with [c] xs @ c # ys) = xs @ split_on c ys"
proof (induction "[c]" xs rule: join_with.induct)
  case (2 x)
  then show ?case by (simp add: split_on_no_sep)
next
  case (3 x y xs)
  then show ?case
    by (simp add: split_on_no_sep [where ys = "join_with [c] (y # xs) @ c # ys", simplified])
qed simp

lemma query_params_join:
  assumes "query_of u = join_with ''&'' ps" and "ps \<noteq> []" and "\<forall>p\<in>set ps. CHR ''&'' \<notin> set p"
  shows "query_params u = map param_pair ps"
  using assms split_on_join_with [of ps "CHR ''&''"] by (simp add: query_params_def)

lemma form_decode_plain:
  "CHR ''%'' \<notin> set s \<Longrightarrow> CHR ''+'' \<notin> set s \<Longrightarrow> form_decode s = s"
  by (induction s rule: form_decode.induct) (auto simp: plus_space_def)

lemma param_pair_eq:
  "CHR ''='' \<notin> set k \<Longrightarrow> CHR ''%'' \<notin> set v \<Longrightarrow> CHR ''+'' \<notin> set v \<Longrightarrow>
   param_pair (k @ CHR ''='' # v) = (k, v)"
  by (simp add: param_pair_def takeWhile_append dropWhile_append form_decode_plain)

end
