(* ===== verification/Language.thy ===== *)
theory Language
  imports JS_Values Query_String
begin

text \<open>
  The two language profiles of \<open>src/src/App.js\<close> (\<open>langEn\<close>, \<open>langFr\<close>), the choice
  between them by the boolean state \<open>lang\<close> (\<open>langChoice\<close>), and the request URLs built
  from the chosen profile (\<open>baseUrl\<close>, the random-article URL of \<open>handleRandom\<close>, the
  search URL of \<open>mediaWikiSearch\<close>). Non-ASCII labels are written as their UTF-8 bytes.
\<close>

record lang_profile =
  button :: string
  language :: string
  search :: string
  placeholder :: string
  random :: string
  clear :: string
  results_label :: string
  noResults :: string
  more_label :: string

definition langEn :: lang_profile where
  "langEn = \<lparr>button = ''FR '' @ [CHR 0xF0, CHR 0x9F, CHR 0x87, CHR 0xAB, CHR 0xF0, CHR 0x9F, CHR 0x87, CHR 0xB7],
     language = ''en'',
     search = ''Search'',
     placeholder = ''Enter your search term'',
     random = ''Random Article'',
     clear = ''Clear results'',
     results_label = ''Search results'',
     noResults = ''No results found'',
     more_label = ''More about''\<rparr>"

definition langFr :: lang_profile where
  "langFr = \<lparr>button = ''EN '' @ [CHR 0xF0, CHR 0x9F, CHR 0x87, CHR 0xBA, CHR 0xF0, CHR 0x9F, CHR 0x87, CHR 0xB8],
     language = ''fr'',
     search = ''Recherche'',
     placeholder = ''Entrez votre recherche'',
     random = ''Article al'' @ [CHR 0xC3, CHR 0xA9] @ ''atoire'',
     clear = ''Effacer'',
     results_label = ''Votre recherche'',
     noResults = ''Aucun r'' @ [CHR 0xC3, CHR 0xA9] @ ''sultat'',
     more_label = ''Plus d'' @ [CHR 0x27] @ ''informations sur''\<rparr>"

definition langChoice :: "bool \<Rightarrow> lang_profile" where
  "langChoice l = (if l then langFr else langEn)"

definition baseUrl :: "lang_profile \<Rightarrow> url" where
  "baseUrl p = ''https://'' @ language p @ ''.wikipedia.org/w/api.php?action=query&format=json&exintro&explaintext''"

definition random_url :: "lang_profile \<Rightarrow> url" where
  "random_url p = baseUrl p @ ''&generator=random&grnnamespace=0&prop=extracts&exchars=500&origin=*''"

definition search_url :: "lang_profile \<Rightarrow> string \<Rightarrow> url" where
  "search_url p term = baseUrl p @ ''&list=search&utf8=1&srsearch='' @ term @ ''&origin=*''"

subsection \<open>Lemmas\<close>

lemma language_langChoice [simp]:
  "language (langChoice l) = (if l then ''fr'' else ''en'')"
  by (simp add: langChoice_def langEn_def langFr_def)

lemma langChoice_inj [simp]: "langChoice a = langChoice b \<longleftrightarrow> a = b"
  by (auto simp: langChoice_def langEn_def langFr_def)

lemma noResults_langChoice [simp]:
  "noResults (langChoice l) = (if l then ''Aucun r'' @ [CHR 0xC3, CHR 0xA9] @ ''sultat'' else ''No results found'')"
  by (simp add: langChoice_def langEn_def langFr_def)

lemma noResults_nonempty [simp]: "noResults (langChoice l) \<noteq> []"
  by simp

lemma button_langChoice_differ: "button (langChoice a) = button (langChoice b) \<longleftrightarrow> a = b"
  by (auto simp: langChoice_def langEn_def langFr_def)



subsection \<open>What the search URL carries\<close>









lemmas [url_simps] = baseUrl_def random_url_def search_url_def

end
