(* ===== verification/Handlers.thy ===== *)
theory Handlers
  imports Language
begin

text \<open>
  The state and the event handlers of the component \<open>App\<close> of \<open>src/src/App.js\<close>. The four
  \<open>useState\<close> hooks are the fields of \<open>app_state\<close>. A handler maps the state to the new
  state and the requests it hands to \<open>axios.get\<close>; a request carries its URL and the
  profile its continuation closes over (the \<open>langChoice\<close> of the render that created the
  handler). The continuations of the two requests (\<open>.then\<close>, \<open>.catch\<close>) map a response
  and the state current at delivery to the new state and the console lines they print.
  A \<open>TypeError\<close> thrown inside \<open>.then\<close> after \<open>setLoading(false)\<close> is caught by the
  \<open>.catch\<close> of the same chain, so the update already made stays.
\<close>

record app_state =
  results :: jsval
  searchTerm :: string
  lang :: bool
  loading :: bool

definition initial_state :: app_state where
  "initial_state = \<lparr>results = JArr [], searchTerm = [], lang = False, loading = False\<rparr>"

datatype req_kind = SearchRequest | RandomRequest

record request =
  req_kind :: req_kind
  req_url :: url
  req_profile :: lang_profile

datatype log_entry = LogError js_error | LogText string

datatype outcome = Resolved jsval | Rejected

subsection \<open>Handlers\<close>

definition handleLanguage :: "app_state \<Rightarrow> app_state" where
  "handleLanguage s = s\<lparr>lang := \<not> lang s, results := JArr []\<rparr>"

definition handleInput :: "string \<Rightarrow> app_state \<Rightarrow> app_state" where
  "handleInput v s = s\<lparr>searchTerm := v\<rparr>"

definition handleClear :: "app_state \<Rightarrow> app_state" where
  "handleClear s = s\<lparr>results := JArr []\<rparr>"

definition mediaWikiSearch :: "app_state \<Rightarrow> string \<Rightarrow> app_state \<times> request list" where
  "mediaWikiSearch s term =
     (let p = langChoice (lang s) in
      (s\<lparr>results := JArr [], loading := True\<rparr>,
       [\<lparr>req_kind = SearchRequest, req_url = search_url p term, req_profile = p\<rparr>]))"

definition handleSubmit :: "app_state \<Rightarrow> app_state \<times> request list" where
  "handleSubmit s =
     (if 0 < length (searchTerm s)
      then (let (s', rs) = mediaWikiSearch s (searchTerm s) in (s'\<lparr>searchTerm := []\<rparr>, rs))
      else (s, []))"

definition handleRandom :: "app_state \<Rightarrow> app_state \<times> request list" where
  "handleRandom s =
     (let p = langChoice (lang s) in
      (s\<lparr>searchTerm := [], results := JArr [], loading := True\<rparr>,
       [\<lparr>req_kind = RandomRequest, req_url = random_url p, req_profile = p\<rparr>]))"

subsection \<open>Continuations\<close>

definition search_then :: "lang_profile \<Rightarrow> jsval \<Rightarrow> app_state \<Rightarrow> app_state \<times> log_entry list" where
  "search_then p response s =
     (let s1 = s\<lparr>loading := False\<rparr> in
      case js_path response [''data'', ''query'', ''search''] of
        Inl e \<Rightarrow> (s1, [LogError e])
      | Inr found \<Rightarrow>
          (case js_get found ''length'' of
             Inl e \<Rightarrow> (s1, [LogError e])
           | Inr len \<Rightarrow>
               if js_greater len 0 then (s1\<lparr>results := found\<rparr>, [])
               else (s1\<lparr>results := JArr [JStr (noResults p)]\<rparr>, [])))"

definition search_catch :: "js_error \<Rightarrow> app_state \<Rightarrow> app_state \<times> log_entry list" where
  "search_catch e s = (s, [LogError e])"

definition random_page :: "jsval \<Rightarrow> js_error + jsval" where
  "random_page response =
     js_bind (js_path response [''data'', ''query'', ''pages'']) (\<lambda>pages.
     js_bind (js_object_keys pages) (\<lambda>keys.
     js_get pages (js_to_string keys)))"

definition random_then :: "jsval \<Rightarrow> app_state \<Rightarrow> app_state \<times> log_entry list" where
  "random_then response s =
     (let s1 = s\<lparr>loading := False\<rparr> in
      case random_page response of
        Inl e \<Rightarrow> (s1, [LogText ''error''])
      | Inr page \<Rightarrow> (s1\<lparr>results := JArr [page]\<rparr>, []))"

definition random_catch :: "app_state \<Rightarrow> app_state \<times> log_entry list" where
  "random_catch s = (s, [LogText ''error''])"

text \<open>Delivery of the outcome of a request to the continuation it was issued with.\<close>

fun complete :: "request \<Rightarrow> outcome \<Rightarrow> app_state \<Rightarrow> app_state \<times> log_entry list" where
  "complete r (Resolved v) s =
     (case req_kind r of
        SearchRequest \<Rightarrow> search_then (req_profile r) v s
      | RandomRequest \<Rightarrow> random_then v s)"
| "complete r Rejected s =
     (case req_kind r of
        SearchRequest \<Rightarrow> search_catch NetworkError s
      | RandomRequest \<Rightarrow> random_catch s)"

subsection \<open>Test responses\<close>

definition search_response :: "jsval list \<Rightarrow> jsval" where
  "search_response hits = JObj [(''data'', JObj [(''query'', JObj [(''search'', JArr hits)])])]"

definition cat_hit :: jsval where
  "cat_hit = JObj [(''title'', JStr ''Cat''), (''snippet'', JStr ''The <b>cat</b>''), (''pageid'', JNum 6678)]"

definition random_response :: "(string \<times> jsval) list \<Rightarrow> jsval" where
  "random_response ps = JObj [(''data'', JObj [(''query'', JObj [(''pages'', JObj ps)])])]"

definition lovelace_page :: jsval where
  "lovelace_page = JObj [(''pageid'', JNum 1271), (''title'', JStr ''Ada Lovelace''),
     (''extract'', JStr ''Augusta Ada King, Countess of Lovelace'')]"

lemmas [app_simps] = handleLanguage_def handleInput_def handleClear_def mediaWikiSearch_def
  handleSubmit_def handleRandom_def search_catch_def random_catch_def

subsection \<open>Behaviour of the handlers\<close>

lemma search_then_JArr:
  assumes "js_path response [''data'', ''query'', ''search''] = Inr (JArr hits)"
  shows "search_then p response s =
    (s\<lparr>loading := False, results := (if hits = [] then JArr [JStr (noResults p)] else JArr hits)\<rparr>, [])"
  using assms by (simp add: search_then_def js_greater_def)

text \<open>
  C1. Submitting a non-empty search term clears the results, raises the loading flag,
  empties the input field, and issues exactly one request: a search for that term on the
  endpoint of the currently selected language, whose continuation closes over that
  language's profile. The guard is the raw length: a term of blanks only is searched too,
  where the spec (section 8, property 3) asks for no request and no state change.
\<close>

theorem handleSubmit_nonempty:
  assumes "searchTerm s \<noteq> []"
  shows "handleSubmit s =
    (s\<lparr>results := JArr [], loading := True, searchTerm := []\<rparr>,
     [\<lparr>req_kind = SearchRequest, req_url = search_url (langChoice (lang s)) (searchTerm s),
       req_profile = langChoice (lang s)\<rparr>])"
  using assms by (simp add: handleSubmit_def mediaWikiSearch_def Let_def)

theorem handleSubmit_nonempty_witness:
  "searchTerm (initial_state\<lparr>searchTerm := ''cat''\<rparr>) \<noteq> [] \<and>
   handleSubmit (initial_state\<lparr>searchTerm := ''cat''\<rparr>) =
    (initial_state\<lparr>results := JArr [], loading := True, searchTerm := []\<rparr>,
     [\<lparr>req_kind = SearchRequest, req_url = search_url langEn ''cat'', req_profile = langEn\<rparr>])"
  using handleSubmit_nonempty [of "initial_state\<lparr>searchTerm := ''cat''\<rparr>"]
  by (simp add: initial_state_def langChoice_def)

text \<open>
  C2. Submitting with an empty input field issues no request and changes no state.
\<close>

theorem handleSubmit_empty:
  assumes "searchTerm s = []"
  shows "handleSubmit s = (s, [])"
  using assms by (simp add: handleSubmit_def)

theorem handleSubmit_empty_witness:
  "searchTerm initial_state = [] \<and> handleSubmit initial_state = (initial_state, [])"
  using handleSubmit_empty [of initial_state] by (simp add: initial_state_def)

text \<open>
  C3. Toggling the language flips the language flag, so that the other of the two
  profiles is chosen, with another locale code and another button label, and empties the
  result list; the search term and the loading flag are untouched.
\<close>

theorem handleLanguage_toggles:
  "lang (handleLanguage s) = (\<not> lang s) \<and> results (handleLanguage s) = JArr [] \<and>
   searchTerm (handleLanguage s) = searchTerm s \<and> loading (handleLanguage s) = loading s \<and>
   language (langChoice (lang (handleLanguage s))) \<noteq> language (langChoice (lang s)) \<and>
   button (langChoice (lang (handleLanguage s))) \<noteq> button (langChoice (lang s))"
  by (simp add: handleLanguage_def button_langChoice_differ)

text \<open>
  C4. A search response whose result array is empty replaces the results by the single
  "no results" sentinel of the profile the request was issued with, and lowers the
  loading flag.
\<close>

theorem search_then_empty:
  assumes "js_path response [''data'', ''query'', ''search''] = Inr (JArr [])"
  shows "search_then p response s = (s\<lparr>loading := False, results := JArr [JStr (noResults p)]\<rparr>, [])"
  using assms by (simp add: search_then_def js_greater_def)

theorem search_then_empty_witness:
  "js_path (search_response []) [''data'', ''query'', ''search''] = Inr (JArr []) \<and>
   search_then langEn (search_response []) initial_state =
     (initial_state\<lparr>results := JArr [JStr ''No results found'']\<rparr>, [])"
  using search_then_empty [of "search_response []" langEn initial_state]
  by (simp add: search_response_def initial_state_def langEn_def)

text \<open>
  C5. A search response with a non-empty result array replaces the results by that array,
  in the order the API returned it, and lowers the loading flag.
\<close>

theorem search_then_hits:
  assumes "js_path response [''data'', ''query'', ''search''] = Inr (JArr hits)" and "hits \<noteq> []"
  shows "search_then p response s = (s\<lparr>loading := False, results := JArr hits\<rparr>, [])"
  using assms by (simp add: search_then_def)

theorem search_then_hits_witness:
  "js_path (search_response [cat_hit]) [''data'', ''query'', ''search''] = Inr (JArr [cat_hit]) \<and>
   [cat_hit] \<noteq> [] \<and>
   search_then langEn (search_response [cat_hit]) initial_state =
     (initial_state\<lparr>results := JArr [cat_hit]\<rparr>, [])"
  using search_then_hits [of "search_response [cat_hit]" "[cat_hit]" langEn initial_state]
  by (simp add: search_response_def initial_state_def)

text \<open>
  C14. A response that resolves but from which \<open>response.data.query.search.length\<close>
  cannot be read (no \<open>data\<close>, no \<open>query\<close>, or a \<open>search\<close> field that is
  missing or not an object) makes the \<open>.then\<close> callback throw after it has lowered the
  loading flag; the \<open>.catch\<close> logs the \<open>TypeError\<close>, the results stay as they were,
  and the flag stays lowered. The spec (section 4.1) says the flag is not reset on a parse
  failure.
\<close>

theorem search_then_unreadable:
  assumes "js_path response [''data'', ''query'', ''search'', ''length''] = Inl e"
  shows "search_then p response s = (s\<lparr>loading := False\<rparr>, [LogError e])"
proof -
  have "js_bind (js_path response [''data'', ''query'', ''search'']) (\<lambda>w. js_get w ''length'') = Inl e"
    using assms js_path_snoc [of response "[''data'', ''query'', ''search'']" "''length''"]
    by (simp del: js_path.simps)
  then show ?thesis
    by (simp add: search_then_def js_bind_def del: js_path.simps split: sum.splits)
qed

theorem search_then_unreadable_witness:
  "js_path (JObj [(''data'', JObj [(''query'', JObj [])])]) [''data'', ''query'', ''search'', ''length''] =
     Inl (TypeError ''length'') \<and>
   search_then langEn (JObj [(''data'', JObj [(''query'', JObj [])])]) (initial_state\<lparr>loading := True\<rparr>) =
     (initial_state, [LogError (TypeError ''length'')])"
  using search_then_unreadable [of "JObj [(''data'', JObj [(''query'', JObj [])])]" "TypeError ''length''"
      langEn "initial_state\<lparr>loading := True\<rparr>"]
  by (simp add: initial_state_def)

text \<open>
  C18. A random-article response whose \<open>pages\<close> object has exactly one entry replaces
  the results by that page alone and lowers the loading flag.
\<close>

theorem random_then_single_page:
  assumes "js_path response [''data'', ''query'', ''pages''] = Inr (JObj [(k, page)])"
  shows "random_then response s = (s\<lparr>loading := False, results := JArr [page]\<rparr>, [])"
  using assms by (simp add: random_then_def random_page_def)

theorem random_then_single_page_witness:
  "js_path (random_response [(''1271'', lovelace_page)]) [''data'', ''query'', ''pages''] =
     Inr (JObj [(''1271'', lovelace_page)]) \<and>
   random_then (random_response [(''1271'', lovelace_page)]) (initial_state\<lparr>loading := True\<rparr>) =
     (initial_state\<lparr>results := JArr [lovelace_page]\<rparr>, [])"
  using random_then_single_page [of "random_response [(''1271'', lovelace_page)]" "''1271''" lovelace_page
      "initial_state\<lparr>loading := True\<rparr>"]
  by (simp add: random_response_def initial_state_def)

text \<open>
  C27. A random-article response from which the page cannot be read (no \<open>query\<close>, no
  \<open>pages\<close>, or \<open>pages\<close> null) makes the \<open>.then\<close> callback throw after it has lowered
  the loading flag; the \<open>.catch\<close> discards the exception and prints the fixed text
  "error", and the results stay as they were.
\<close>

theorem random_then_unreadable:
  assumes "random_page response = Inl e"
  shows "random_then response s = (s\<lparr>loading := False\<rparr>, [LogText ''error''])"
  using assms by (simp add: random_then_def)

theorem random_then_unreadable_witness:
  "random_page (JObj [(''data'', JObj [])]) = Inl (TypeError ''pages'') \<and>
   random_then (JObj [(''data'', JObj [])]) (initial_state\<lparr>loading := True\<rparr>) =
     (initial_state, [LogText ''error''])"
proof -
  have r: "random_page (JObj [(''data'', JObj [])]) = Inl (TypeError ''pages'')"
    by (simp add: random_page_def js_bind_def)
  show ?thesis using r random_then_unreadable [OF r, of "initial_state\<lparr>loading := True\<rparr>"]
    by (simp add: initial_state_def)
qed

end
