(* ===== verification/Event_Loop.thy ===== *)
theory Event_Loop
  imports Handlers
begin

text \<open>
  The page as the browser runs it: the component's state, the requests handed to
  \<open>axios\<close> and not yet answered, and the console. One event is one task of the event loop:
  a click on one of the buttons of \<open>App\<close>'s markup, an edit of the input field, the Enter
  key in that field, or the answer to one request in flight, in any order the network
  chooses. The form has a single text field and no submit button, so Enter submits it
  (HTML implicit submission); the form has no \<open>onSubmit\<close> handler, and the page is
  reloaded: state, requests and console start afresh.
\<close>

record world =
  app :: app_state
  inflight :: "request list"
  console :: "log_entry list"

definition init_world :: world where
  "init_world = \<lparr>app = initial_state, inflight = [], console = []\<rparr>"

datatype event =
    ClickLanguage
  | TypeInput string
  | ClickSearch
  | PressEnter
  | ClickRandom
  | ClickClear
  | Deliver nat outcome

definition issue :: "world \<Rightarrow> app_state \<times> request list \<Rightarrow> world" where
  "issue w r = w\<lparr>app := fst r, inflight := inflight w @ snd r\<rparr>"

definition deliver :: "world \<Rightarrow> nat \<Rightarrow> outcome \<Rightarrow> world" where
  "deliver w i out =
     (let r = complete (inflight w ! i) out (app w)
      in \<lparr>app = fst r, inflight = remove_nth i (inflight w), console = console w @ snd r\<rparr>)"

fun world_step :: "world \<Rightarrow> event \<Rightarrow> world option" where
  "world_step w ClickLanguage = Some (w\<lparr>app := handleLanguage (app w)\<rparr>)"
| "world_step w (TypeInput v) = Some (w\<lparr>app := handleInput v (app w)\<rparr>)"
| "world_step w ClickSearch = Some (issue w (handleSubmit (app w)))"
| "world_step w PressEnter = Some init_world"
| "world_step w ClickRandom = Some (issue w (handleRandom (app w)))"
| "world_step w ClickClear = Some (w\<lparr>app := handleClear (app w)\<rparr>)"
| "world_step w (Deliver i out) = (if i < length (inflight w) then Some (deliver w i out) else None)"

fun run :: "world \<Rightarrow> event list \<Rightarrow> world option" where
  "run w [] = Some w"
| "run w (e # es) = (case world_step w e of None \<Rightarrow> None | Some w' \<Rightarrow> run w' es)"

inductive reach :: "world \<Rightarrow> bool" where
  reach_init: "reach init_world"
| reach_step: "reach w \<Longrightarrow> world_step w e = Some w' \<Longrightarrow> reach w'"

definition loading_inv :: "world \<Rightarrow> bool" where
  "loading_inv w \<longleftrightarrow> (loading (app w) \<longrightarrow> inflight w \<noteq> [] \<or> console w \<noteq> [])"

definition request_ok :: "request \<Rightarrow> bool" where
  "request_ok r \<longleftrightarrow>
     (req_profile r = langEn \<or> req_profile r = langFr) \<and>
     (case req_kind r of
        RandomRequest \<Rightarrow> req_url r = random_url (req_profile r)
      | SearchRequest \<Rightarrow>
          (\<exists>t. t \<noteq> [] \<and> req_url r = search_url (req_profile r) t))"

definition cat_search_world :: world where
  "cat_search_world =
     \<lparr>app = initial_state\<lparr>loading := True\<rparr>,
      inflight = [\<lparr>req_kind = SearchRequest, req_url = search_url langEn ''cat'', req_profile = langEn\<rparr>],
      console = []\<rparr>"

definition random_world :: world where
  "random_world =
     \<lparr>app = initial_state\<lparr>loading := True\<rparr>,
      inflight = [\<lparr>req_kind = RandomRequest, req_url = random_url langEn, req_profile = langEn\<rparr>],
      console = []\<rparr>"

definition dog_hit :: jsval where
  "dog_hit = JObj [(''title'', JStr ''Dog''), (''snippet'', JStr ''The <b>dog</b>''), (''pageid'', JNum 4269567)]"

definition two_searches_world :: world where
  "two_searches_world =
     \<lparr>app = initial_state\<lparr>loading := True\<rparr>,
      inflight = [\<lparr>req_kind = SearchRequest, req_url = search_url langEn ''dog'', req_profile = langEn\<rparr>,
                  \<lparr>req_kind = SearchRequest, req_url = search_url langEn ''cat'', req_profile = langEn\<rparr>],
      console = []\<rparr>"

fun_cases world_step_DeliverE: "world_step w (Deliver i out) = Some w'"

subsection \<open>Runs and reachable states\<close>

lemma run_reach_from: "reach w \<Longrightarrow> run w es = Some w' \<Longrightarrow> reach w'"
proof (induction w es rule: run.induct)
  case (2 w e es)
  then show ?case by (auto split: option.splits intro: reach_step)
qed simp

lemma run_reach: "run init_world es = Some w \<Longrightarrow> reach w"
  by (rule run_reach_from [OF reach_init])

subsection \<open>The state each step leaves\<close>

lemma loading_handleSubmit:
  "loading (fst (handleSubmit s)) \<longleftrightarrow> loading s \<or> searchTerm s \<noteq> []"
  by (simp add: handleSubmit_def mediaWikiSearch_def Let_def)

lemma requests_handleSubmit:
  "snd (handleSubmit s) = [] \<longleftrightarrow> searchTerm s = []"
  by (simp add: handleSubmit_def mediaWikiSearch_def Let_def)

lemma loading_complete_Resolved: "\<not> loading (fst (complete r (Resolved v) s))"
  by (cases "req_kind r")
    (simp_all add: search_then_def random_then_def Let_def split: sum.splits)

lemma complete_Rejected:
  "complete r Rejected s = (s, [if req_kind r = SearchRequest then LogError NetworkError else LogText ''error''])"
  by (cases "req_kind r") (simp_all add: search_catch_def random_catch_def)

lemma app_deliver [simp]: "app (deliver w i out) = fst (complete (inflight w ! i) out (app w))"
  and inflight_deliver [simp]: "inflight (deliver w i out) = remove_nth i (inflight w)"
  and console_deliver [simp]: "console (deliver w i out) = console w @ snd (complete (inflight w ! i) out (app w))"
  by (simp_all add: deliver_def Let_def)

declare complete.simps [simp del]

lemma deliver_search_resolved:
  assumes "i < length (inflight w)" and "req_kind (inflight w ! i) = SearchRequest"
  shows "\<exists>w'. world_step w (Deliver i (Resolved v)) = Some w' \<and>
              app w' = fst (search_then (req_profile (inflight w ! i)) v (app w))"
  using assms by (simp add: complete.simps)

lemmas world_step_simps = issue_def deliver_def handleRandom_def handleLanguage_def
  handleInput_def handleClear_def Let_def complete.simps

subsection \<open>Failures and the loading flag\<close>

text \<open>
  C8. When the request of a search fails in transport (the promise of \<open>axios.get\<close> is
  rejected), its \<open>.catch\<close> only logs the error: the request leaves the set in flight, the
  error is appended to the console, and the component's state, its loading flag included,
  is left exactly as it was.
\<close>

theorem deliver_search_rejected_keeps_state:
  assumes "i < length (inflight w)" and "req_kind (inflight w ! i) = SearchRequest"
  shows "world_step w (Deliver i Rejected) =
    Some \<lparr>app = app w, inflight = remove_nth i (inflight w), console = console w @ [LogError NetworkError]\<rparr>"
  using assms by (simp add: deliver_def complete_Rejected)

theorem deliver_search_rejected_keeps_state_witness:
  "0 < length (inflight cat_search_world) \<and> req_kind (inflight cat_search_world ! 0) = SearchRequest \<and>
   world_step cat_search_world (Deliver 0 Rejected) =
     Some \<lparr>app = initial_state\<lparr>loading := True\<rparr>, inflight = [], console = [LogError NetworkError]\<rparr>"
  using deliver_search_rejected_keeps_state [of 0 cat_search_world]
  by (simp add: cat_search_world_def remove_nth_def)

lemma loading_inv_init: "loading_inv init_world"
  by (simp add: loading_inv_def init_world_def initial_state_def)

lemma world_step_loading_inv:
  assumes "loading_inv w" and "world_step w e = Some w'"
  shows "loading_inv w'"
proof (cases e)
  case ClickSearch
  with assms show ?thesis
    by (auto simp: loading_inv_def issue_def loading_handleSubmit requests_handleSubmit)
next
  case (Deliver i out)
  with assms show ?thesis
    by (cases out) (auto simp: loading_inv_def loading_complete_Resolved complete_Rejected split: if_splits)
qed (use assms in \<open>auto simp: world_step_simps loading_inv_def init_world_def initial_state_def\<close>)

lemma reach_loading_inv_aux: "reach w \<Longrightarrow> loading_inv w"
  by (induction rule: reach.induct) (auto intro: loading_inv_init world_step_loading_inv)

text \<open>
  C9. In every reachable state of the page, the loading spinner is shown only while some
  request is in flight or after a failure has been printed to the console: a request that
  is answered with a well-formed or malformed response always lowers the flag.
\<close>

theorem reach_loading_in_flight_or_logged:
  assumes "reach w" and "loading (app w)"
  shows "0 < length (inflight w) + length (console w)"
  using reach_loading_inv_aux [OF assms(1)] assms(2) by (auto simp: loading_inv_def)

theorem reach_loading_in_flight_or_logged_witness:
  "reach random_world \<and> loading (app random_world) \<and>
   0 < length (inflight random_world) + length (console random_world)"
proof -
  have "run init_world [ClickRandom] = Some random_world"
    by (simp add: world_step_simps init_world_def initial_state_def random_world_def langChoice_def)
  then have r: "reach random_world" by (rule run_reach)
  have l: "loading (app random_world)" by (simp add: random_world_def)
  show ?thesis using r l reach_loading_in_flight_or_logged [OF r l] by simp
qed

text \<open>
  C10. The spinner can stay on with nothing in flight: a search whose request fails in
  transport leaves the loading flag raised for good (until a new request or a reload),
  contrary to the spec's corrected contract (section 8, property 7) that the flag is
  lowered on every exit path.
\<close>

theorem spinner_stuck_after_failure:
  "\<exists>w. run init_world [TypeInput ''cat'', ClickSearch, Deliver 0 Rejected] = Some w \<and>
       reach w \<and> loading (app w) \<and> inflight w = [] \<and>
       (\<forall>es. set es \<subseteq> {ClickLanguage, ClickClear} \<longrightarrow> map_option (loading \<circ> app) (run w es) = Some True)"
proof -
  let ?w = "\<lparr>app = initial_state\<lparr>loading := True\<rparr>, inflight = [], console = [LogError NetworkError]\<rparr>"
  have run: "run init_world [TypeInput ''cat'', ClickSearch, Deliver 0 Rejected] = Some ?w"
    by (simp add: world_step_simps init_world_def initial_state_def handleSubmit_def mediaWikiSearch_def
        search_catch_def remove_nth_def)
  have stay: "loading (app v) \<Longrightarrow> set es \<subseteq> {ClickLanguage, ClickClear} \<Longrightarrow>
      map_option (loading \<circ> app) (run v es) = Some True" for v es
    by (induction es arbitrary: v) (auto simp: world_step_simps)
  show ?thesis using run run_reach [OF run] stay [of ?w] by auto
qed

theorem spinner_stuck_after_failure_witness:
  "\<exists>w. run init_world [TypeInput ''cat'', ClickSearch, Deliver 0 Rejected] = Some w \<and>
       set [ClickLanguage, ClickClear, ClickLanguage] \<subseteq> {ClickLanguage, ClickClear} \<and>
       map_option (loading \<circ> app) (run w [ClickLanguage, ClickClear, ClickLanguage]) = Some True"
proof -
  obtain w where r: "run init_world [TypeInput ''cat'', ClickSearch, Deliver 0 Rejected] = Some w"
    and stays: "\<forall>es. set es \<subseteq> {ClickLanguage, ClickClear} \<longrightarrow>
                  map_option (loading \<circ> app) (run w es) = Some True"
    using spinner_stuck_after_failure by blast
  have s: "set [ClickLanguage, ClickClear, ClickLanguage] \<subseteq> {ClickLanguage, ClickClear}"
    by simp
  with stays have "map_option (loading \<circ> app) (run w [ClickLanguage, ClickClear, ClickLanguage]) = Some True"
    by blast
  with r s show ?thesis by blast
qed

subsection \<open>Interleavings\<close>

lemma run_two_searches: "run init_world [TypeInput ''dog'', ClickSearch, TypeInput ''cat'', ClickSearch] = Some two_searches_world"
  by (simp add: world_step_simps init_world_def initial_state_def two_searches_world_def
      handleSubmit_def mediaWikiSearch_def langChoice_def)

text \<open>
  C11. Any resolved answer lowers the loading flag, whichever request it answers and
  however many other requests stay in flight: the spinner goes off while a later search is
  still unanswered, contrary to the spec (section 8, property 7), which asks for the flag to
  stay raised while a request is in flight.
\<close>

theorem resolved_answer_lowers_loading:
  assumes "i < length (inflight w)"
  shows "\<exists>w'. world_step w (Deliver i (Resolved v)) = Some w' \<and> \<not> loading (app w') \<and>
              inflight w' = remove_nth i (inflight w)"
  using assms by (simp add: loading_complete_Resolved)

theorem resolved_answer_lowers_loading_witness:
  "reach two_searches_world \<and> 0 < length (inflight two_searches_world) \<and>
   (\<exists>w'. world_step two_searches_world (Deliver 0 (Resolved (search_response [dog_hit]))) = Some w' \<and>
         \<not> loading (app w') \<and> length (inflight w') = 1)"
proof -
  have r: "reach two_searches_world" by (rule run_reach [OF run_two_searches])
  have i: "0 < length (inflight two_searches_world)" by (simp add: two_searches_world_def)
  obtain w' where "world_step two_searches_world (Deliver 0 (Resolved (search_response [dog_hit]))) = Some w'"
    and "\<not> loading (app w')" and "inflight w' = remove_nth 0 (inflight two_searches_world)"
    using resolved_answer_lowers_loading [OF i] by blast
  then show ?thesis using r i by (auto simp: two_searches_world_def)
qed

text \<open>
  C12. Answers are applied in the order they arrive, not the order of the requests: of two
  searches in flight, when the answer to the older one (index \<open>i\<close>) arrives after the
  answer to the newer one (index \<open>j\<close>), the page shows the older, superseded search's
  hits, whatever the newer answer was (no request token, no cancellation; spec section 5).
\<close>

theorem last_arrival_wins:
  assumes "i < j" and "j < length (inflight w)"
    and "req_kind (inflight w ! i) = SearchRequest"
    and "js_path vi [''data'', ''query'', ''search''] = Inr (JArr hi)" and "hi \<noteq> []"
  shows "\<exists>w'. run w [Deliver j (Resolved vj), Deliver i (Resolved vi)] = Some w' \<and>
              results (app w') = JArr hi \<and> inflight w' = remove_nth i (remove_nth j (inflight w))"
proof -
  let ?w1 = "deliver w j (Resolved vj)"
  have i1: "i < length (inflight ?w1)" and r1: "inflight ?w1 ! i = inflight w ! i"
    using assms(1,2) by simp_all
  have "results (fst (complete (inflight ?w1 ! i) (Resolved vi) (app ?w1))) = JArr hi"
    using r1 assms(3-5) by (simp add: complete.simps search_then_JArr del: js_path.simps app_deliver)
  then show ?thesis using assms(2) i1 by simp
qed

theorem last_arrival_wins_witness:
  "reach two_searches_world \<and> (0::nat) < 1 \<and> 1 < length (inflight two_searches_world) \<and>
   req_kind (inflight two_searches_world ! 0) = SearchRequest \<and>
   js_path (search_response [dog_hit]) [''data'', ''query'', ''search''] = Inr (JArr [dog_hit]) \<and>
   [dog_hit] \<noteq> [] \<and>
   (\<exists>w'. run two_searches_world [Deliver 1 (Resolved (search_response [cat_hit])),
                                  Deliver 0 (Resolved (search_response [dog_hit]))] = Some w' \<and>
         results (app w') = JArr [dog_hit] \<and> inflight w' = [])"
proof -
  have r: "reach two_searches_world" by (rule run_reach [OF run_two_searches])
  have a: "(0::nat) < 1" "1 < length (inflight two_searches_world)"
    "req_kind (inflight two_searches_world ! 0) = SearchRequest"
    by (simp_all add: two_searches_world_def)
  have p: "js_path (search_response [dog_hit]) [''data'', ''query'', ''search''] = Inr (JArr [dog_hit])"
    by (simp add: search_response_def)
  have n: "[dog_hit] \<noteq> []" by simp
  show ?thesis
    using r a p n last_arrival_wins [OF a p n, of "search_response [cat_hit]"]
    by (simp add: two_searches_world_def)
qed

subsection \<open>Reachability and the requests in flight\<close>

lemma langChoice_cases: "langChoice l = langEn \<or> langChoice l = langFr"
  by (simp add: langChoice_def)

lemma request_ok_handleSubmit: "r \<in> set (snd (handleSubmit s)) \<Longrightarrow> request_ok r"
  using langChoice_cases [of "lang s"]
  by (auto simp: handleSubmit_def mediaWikiSearch_def Let_def request_ok_def split: if_splits)

lemma request_ok_handleRandom: "r \<in> set (snd (handleRandom s)) \<Longrightarrow> request_ok r"
  using langChoice_cases [of "lang s"] by (auto simp: handleRandom_def Let_def request_ok_def)

lemma world_step_requests_ok:
  assumes "\<forall>r\<in>set (inflight w). request_ok r" and "world_step w e = Some w'"
  shows "\<forall>r\<in>set (inflight w'). request_ok r"
proof (cases e)
  case ClickSearch
  with assms show ?thesis by (auto simp: issue_def dest: request_ok_handleSubmit)
next
  case ClickRandom
  with assms show ?thesis by (auto simp: issue_def dest: request_ok_handleRandom)
next
  case (Deliver i out)
  with assms show ?thesis using set_remove_nth [of i "inflight w"] by (auto split: if_splits)
qed (use assms in \<open>auto simp: init_world_def\<close>)

text \<open>
  C20. In every reachable world, each request in flight goes to the endpoint of the
  profile its continuation closes over, one of the two fixed profiles: a random-article
  request to that profile's random URL, a search request to that profile's search URL
  with a non-empty term. So a continuation never interprets an answer of another
  language's endpoint.
\<close>

theorem reach_requests_scoped:
  assumes "reach w" and "r \<in> set (inflight w)"
  shows "request_ok r"
proof -
  from assms(1) have "\<forall>r\<in>set (inflight w). request_ok r"
  proof (induction rule: reach.induct)
    case reach_init
    then show ?case by (simp add: init_world_def)
  next
    case (reach_step w e w')
    then show ?case using world_step_requests_ok by blast
  qed
  with assms(2) show ?thesis by blast
qed

theorem reach_requests_scoped_witness:
  "reach cat_search_world \<and>
   \<lparr>req_kind = SearchRequest, req_url = search_url langEn ''cat'', req_profile = langEn\<rparr> \<in> set (inflight cat_search_world) \<and>
   request_ok \<lparr>req_kind = SearchRequest, req_url = search_url langEn ''cat'', req_profile = langEn\<rparr>"
proof -
  have "run init_world [TypeInput ''cat'', ClickSearch] = Some cat_search_world"
    by (simp add: world_step_simps init_world_def initial_state_def cat_search_world_def
        handleSubmit_def mediaWikiSearch_def langChoice_def)
  then have r: "reach cat_search_world" by (rule run_reach)
  have m: "\<lparr>req_kind = SearchRequest, req_url = search_url langEn ''cat'', req_profile = langEn\<rparr>
      \<in> set (inflight cat_search_world)"
    by (simp add: cat_search_world_def)
  show ?thesis using r m reach_requests_scoped [OF r m] by simp
qed


text \<open>
  C25. When at least one request is in flight, answering all of them one by one, oldest
  first, each with a resolved response (well-formed or not), empties the set of requests in
  flight and stops the spinner: only a transport failure can leave it on.
\<close>

theorem answer_all_stops_spinner:
  assumes "length rs = length (inflight w)" and "rs \<noteq> []"
  shows "\<exists>w'. run w (map (\<lambda>v. Deliver 0 (Resolved v)) rs) = Some w' \<and> inflight w' = [] \<and>
              \<not> loading (app w')"
  using assms
proof (induction rs arbitrary: w)
  case (Cons v rs)
  then obtain r rest where q: "inflight w = r # rest" by (cases "inflight w") auto
  let ?w1 = "deliver w 0 (Resolved v)"
  have step: "world_step w (Deliver 0 (Resolved v)) = Some ?w1" using q by simp
  have len: "length rs = length (inflight ?w1)" using Cons.prems(1) q by simp
  show ?case
  proof (cases "rs = []")
    case True
    with len have "inflight ?w1 = []" by simp
    moreover have "\<not> loading (app ?w1)" by (simp add: loading_complete_Resolved)
    ultimately show ?thesis using step True by simp
  next
    case False
    with Cons.IH len obtain w' where "run ?w1 (map (\<lambda>v. Deliver 0 (Resolved v)) rs) = Some w'"
      and "inflight w' = []" and "\<not> loading (app w')" by blast
    with step show ?thesis by simp
  qed
qed simp

theorem answer_all_stops_spinner_witness:
  "length [search_response [cat_hit]] = length (inflight cat_search_world) \<and> [search_response [cat_hit]] \<noteq> [] \<and>
   (\<exists>w'. run cat_search_world [Deliver 0 (Resolved (search_response [cat_hit]))] = Some w' \<and>
         inflight w' = [] \<and> \<not> loading (app w'))"
proof -
  have l: "length [search_response [cat_hit]] = length (inflight cat_search_world)"
    by (simp add: cat_search_world_def)
  have n: "[search_response [cat_hit]] \<noteq> []" by simp
  show ?thesis using l n answer_all_stops_spinner [OF l n] by simp
qed

end
