(* ===== verification/Render.thy ===== *)
theory Render
  imports Handlers
begin

text \<open>
  What \<open>App\<close> renders from its state (the JSX of \<open>src/src/App.js\<close>): the labels of the chosen
  profile, the input field, the spinner while \<open>loading\<close>, the results header, and one list
  item per element of \<open>results\<close>, with its heading (the title, or \<open>results[0]\<close> when the
  element has no title), its snippet as raw HTML or its extract as text, and its link to
  the article. A render is \<open>Inr\<close> of the view, or \<open>Inl\<close> of the error that makes React
  throw (the page then goes blank). Markup, styling and the \<open>FlipMove\<close> animation are
  left out.
\<close>

datatype item_body = InnerHtml string | TextBody string

record rendered_item =
  item_key :: nat
  heading :: string
  item_body :: item_body
  href :: "url option"
  link_text :: string

record view =
  lang_button :: string
  input_placeholder :: string
  input_value :: string
  search_label :: string
  random_label :: string
  clear_label :: string
  spinner :: bool
  results_header :: "string option"
  items :: "rendered_item list"

text \<open>\<open>result.pageid ? `https://${lang}.wikipedia.org/w/index.php?curid=${result.pageid}` : null\<close>\<close>

definition article_url :: "lang_profile \<Rightarrow> jsval \<Rightarrow> url option" where
  "article_url p pageid =
     (if js_truthy pageid
      then Some (''https://'' @ language p @ ''.wikipedia.org/w/index.php?curid='' @ js_to_string pageid)
      else None)"

definition render_item :: "lang_profile \<Rightarrow> jsval \<Rightarrow> nat \<Rightarrow> jsval \<Rightarrow> js_error + rendered_item" where
  "render_item p rs index result =
     js_bind (js_get result ''pageid'') (\<lambda>pageid.
     js_bind (js_get result ''title'') (\<lambda>title.
     js_bind (if js_truthy title then Inr title else js_get rs ''0'') (\<lambda>shown.
     js_bind (react_child shown) (\<lambda>h.
     js_bind (js_get result ''snippet'') (\<lambda>snippet.
     js_bind (if js_truthy snippet then Inr (InnerHtml (js_to_string snippet))
              else js_bind (js_get result ''extract'') (\<lambda>extract.
                   js_bind (react_child (js_and extract extract)) (\<lambda>t. Inr (TextBody ('' '' @ t @ '' ''))))) (\<lambda>b.
     js_bind (react_child (js_and title (JStr (more_label p)))) (\<lambda>m.
     js_bind (react_child (js_and title title)) (\<lambda>t.
     Inr \<lparr>item_key = index, heading = h, item_body = b, href = article_url p pageid,
          link_text = m @ '' '' @ t\<rparr>))))))))"

primrec render_list :: "lang_profile \<Rightarrow> jsval \<Rightarrow> nat \<Rightarrow> jsval list \<Rightarrow> js_error + rendered_item list" where
  "render_list p rs i [] = Inr []"
| "render_list p rs i (x # xs) =
     js_bind (render_item p rs i x) (\<lambda>it. js_bind (render_list p rs (Suc i) xs) (\<lambda>its. Inr (it # its)))"

text \<open>\<open>results.map(...)\<close>: a value without a \<open>map\<close> method makes the call throw.\<close>

definition results_map :: "lang_profile \<Rightarrow> jsval \<Rightarrow> js_error + rendered_item list" where
  "results_map p rs = (case rs of JArr xs \<Rightarrow> render_list p rs 0 xs | _ \<Rightarrow> Inl (TypeError ''map''))"

text \<open>
  The results header \<open>!loading && results.length > 0\<close> reads \<open>results.length\<close> only when
  the spinner is off; it is evaluated before \<open>results.map\<close>, as the children of the
  \<open>articles\<close> division are.
\<close>

definition render :: "app_state \<Rightarrow> js_error + view" where
  "render s =
     (let p = langChoice (lang s) in
      js_bind (if loading s then Inr None
               else js_bind (js_get (results s) ''length'') (\<lambda>len.
                    Inr (if js_greater len 0 then Some (results_label p) else None))) (\<lambda>hdr.
      js_bind (results_map p (results s)) (\<lambda>its.
      Inr \<lparr>lang_button = button p, input_placeholder = placeholder p, input_value = searchTerm s,
           search_label = search p, random_label = random p, clear_label = clear p,
           spinner = loading s, results_header = hdr, items = its\<rparr>)))"

subsection \<open>Lemmas\<close>

lemma render_list_length:
  "render_list p rs i xs = Inr its \<Longrightarrow> length its = length xs"
  by (induction xs arbitrary: i its) (auto simp: js_bind_eq_Inr)

lemma render_list_append:
  "render_list p rs i (xs @ ys) =
     js_bind (render_list p rs i xs) (\<lambda>a. js_bind (render_list p rs (i + length xs) ys) (\<lambda>b. Inr (a @ b)))"
  by (induction xs arbitrary: i) (simp_all add: js_bind_def split: sum.splits)

lemma render_item_untitled:
  assumes "\<not> js_truthy (case map_of qs ''title'' of None \<Rightarrow> JUndefined | Some t \<Rightarrow> t)"
    and "js_get rs ''0'' = Inr (JObj ps)"
  shows "render_item p rs i (JObj qs) = Inl InvalidReactChild"
  using assms by (simp add: render_item_def)

lemma render_JArr_Nil:
  "render (s\<lparr>results := JArr []\<rparr>) =
     Inr \<lparr>lang_button = button (langChoice (lang s)), input_placeholder = placeholder (langChoice (lang s)),
          input_value = searchTerm s, search_label = search (langChoice (lang s)),
          random_label = random (langChoice (lang s)), clear_label = clear (langChoice (lang s)),
          spinner = loading s, results_header = None, items = []\<rparr>"
  by (simp add: render_def results_map_def js_greater_def Let_def)

lemma article_url_pageid:
  "0 < n \<Longrightarrow> article_url p (JNum (int n)) =
     Some (''https://'' @ language p @ ''.wikipedia.org/w/index.php?curid='' @ show_nat n)"
  by (simp add: article_url_def show_int_def)

text \<open>
  C17. The deep link carries the page id: for a positive page id, the link of an item is
  defined, and the endpoint reading its \<open>curid\<close> parameter as a decimal number gets the
  page id back.
\<close>

theorem article_url_curid_roundtrip:
  assumes "0 < n"
  shows "\<exists>u. article_url (langChoice l) (JNum (int n)) = Some u \<and>
             Option.bind (url_param u ''curid'') parse_nat = Some n"
proof -
  let ?u = "''https://'' @ language (langChoice l) @ ''.wikipedia.org/w/index.php?curid='' @ show_nat n"
  have plain: "CHR ''#'' \<notin> set (show_nat n)" "CHR ''&'' \<notin> set (show_nat n)"
    "CHR ''%'' \<notin> set (show_nat n)" "CHR ''+'' \<notin> set (show_nat n)"
    by (simp_all add: show_nat_no_char char_digit_def)
  have q: "query_of ?u = ''curid='' @ show_nat n"
    using plain(1) by (simp add: query_of_def dropWhile_append takeWhile_append takeWhile_eq_all_conv)
      (metis (mono_tags, lifting))
  have "query_params ?u = map param_pair (split_on CHR ''&'' (''curid='' @ show_nat n))"
    by (simp only: query_params_def q)
  then have "query_params ?u = [(''curid'', show_nat n)]"
    using plain by (simp add: split_on_no_sep_end param_pair_def form_decode_plain)
  then have "Option.bind (url_param ?u ''curid'') parse_nat = Some n"
    by (simp only: url_param_def) simp
  with assms show ?thesis by (simp add: article_url_pageid)
qed

theorem article_url_curid_roundtrip_witness:
  "0 < (6678::nat) \<and>
   Option.bind (url_param ''https://fr.wikipedia.org/w/index.php?curid=6678'' ''curid'') parse_nat = Some 6678 \<and>
   article_url (langChoice True) (JNum 6678) = Some ''https://fr.wikipedia.org/w/index.php?curid=6678''"
proof -
  have s: "show_nat 6678 = ''6678''" by (simp add: show_nat.simps digit_char_def)
  obtain u where u: "article_url (langChoice True) (JNum (int 6678)) = Some u"
    and b: "Option.bind (url_param u ''curid'') parse_nat = Some 6678"
    using article_url_curid_roundtrip [of 6678 True] by auto
  have "u = ''https://fr.wikipedia.org/w/index.php?curid=6678''"
    using u s by (simp add: article_url_pageid [of 6678, simplified])
  with u b show ?thesis by simp
qed


text \<open>
  C26. The trust boundary of spec section 9: a result with a title and a non-empty
  \<open>snippet\<close> string is rendered with that snippet inserted verbatim as raw HTML
  (\<open>dangerouslySetInnerHTML\<close>), unescaped and unsanitised, whatever markup it holds.
\<close>

theorem snippet_inserted_verbatim:
  assumes "t \<noteq> []" and "sn \<noteq> []"
  shows "\<exists>it. render_item p rs i (JObj [(''title'', JStr t), (''snippet'', JStr sn), (''pageid'', JNum n)]) = Inr it \<and>
    item_body it = InnerHtml sn \<and> heading it = t"
  using assms by (simp add: render_item_def js_and_def)

theorem snippet_inserted_verbatim_witness:
  "''XSS'' \<noteq> [] \<and> ''<img src=x onerror=alert(1)>'' \<noteq> [] \<and>
   (\<exists>it. render_item langEn (JArr []) 0
      (JObj [(''title'', JStr ''XSS''), (''snippet'', JStr ''<img src=x onerror=alert(1)>''), (''pageid'', JNum 1)]) = Inr it \<and>
    item_body it = InnerHtml ''<img src=x onerror=alert(1)>'' \<and> heading it = ''XSS'')"
proof -
  have a: "''XSS'' \<noteq> []" "''<img src=x onerror=alert(1)>'' \<noteq> []" by simp_all
  show ?thesis using a snippet_inserted_verbatim [OF a, of langEn "JArr []" 0 1] by simp
qed

end
