(* ===== verification/Api_Contract.thy ===== *)
theory Api_Contract
  imports Event_Loop Render
begin

text \<open>
  The shape of the answers the code expects from the API (spec section 6) and the page
  states reached when every answer has that shape. A result item is an object with a
  non-empty string \<open>title\<close>, a positive numeric \<open>pageid\<close>, and a \<open>snippet\<close> and an
  \<open>extract\<close> that are absent or strings (a search hit has a snippet, a random page an
  extract). A search answer carries an array of items in \<open>query.search\<close>; a random
  answer carries a \<open>query.pages\<close> object with a single page. A transport failure is
  allowed. \<open>reach_api\<close> is \<open>reach\<close> restricted to such answers.
\<close>

definition opt_str :: "jsval option \<Rightarrow> bool" where
  "opt_str v = (case v of None \<Rightarrow> True | Some (JStr _) \<Rightarrow> True | Some _ \<Rightarrow> False)"

fun api_item :: "jsval \<Rightarrow> bool" where
  "api_item (JObj ps) =
     ((case map_of ps ''title'' of Some (JStr t) \<Rightarrow> t \<noteq> [] | _ \<Rightarrow> False) \<and>
      (case map_of ps ''pageid'' of Some (JNum n) \<Rightarrow> 0 < n | _ \<Rightarrow> False) \<and>
      opt_str (map_of ps ''snippet'') \<and> opt_str (map_of ps ''extract''))"
| "api_item _ = False"

fun api_answer :: "req_kind \<Rightarrow> outcome \<Rightarrow> bool" where
  "api_answer k Rejected = True"
| "api_answer SearchRequest (Resolved v) =
     (case js_path v [''data'', ''query'', ''search''] of Inr (JArr hits) \<Rightarrow> list_all api_item hits | _ \<Rightarrow> False)"
| "api_answer RandomRequest (Resolved v) =
     (case js_path v [''data'', ''query'', ''pages''] of Inr (JObj [(k, pg)]) \<Rightarrow> api_item pg | _ \<Rightarrow> False)"

fun api_event :: "world \<Rightarrow> event \<Rightarrow> bool" where
  "api_event w (Deliver i out) = (if i < length (inflight w) then api_answer (req_kind (inflight w ! i)) out else True)"
| "api_event w _ = True"

inductive reach_api :: "world \<Rightarrow> bool" where
  reach_api_init: "reach_api init_world"
| reach_api_step: "reach_api w \<Longrightarrow> api_event w e \<Longrightarrow> world_step w e = Some w' \<Longrightarrow> reach_api w'"

fun api_run :: "world \<Rightarrow> event list \<Rightarrow> world option" where
  "api_run w [] = Some w"
| "api_run w (e # es) =
     (if api_event w e then (case world_step w e of None \<Rightarrow> None | Some w' \<Rightarrow> api_run w' es) else None)"

text \<open>The results the render can always show: a single sentinel string, or items of the API's shape.\<close>

fun sentinel_only :: "jsval list \<Rightarrow> bool" where
  "sentinel_only [JStr t] = True"
| "sentinel_only _ = False"

definition results_ok :: "jsval \<Rightarrow> bool" where
  "results_ok r = (case r of JArr xs \<Rightarrow> sentinel_only xs \<or> list_all api_item xs | _ \<Rightarrow> False)"

definition cat_result_world :: world where
  "cat_result_world = \<lparr>app = initial_state\<lparr>results := JArr [cat_hit]\<rparr>, inflight = [], console = []\<rparr>"

subsection \<open>Lemmas\<close>

declare complete.simps [simp del]

lemma api_run_reach_api: "reach_api w \<Longrightarrow> api_run w es = Some w' \<Longrightarrow> reach_api w'"
proof (induction w es rule: api_run.induct)
  case (2 w e es)
  then show ?case by (auto split: if_splits option.splits intro: reach_api_step)
qed simp

lemma reach_api_reach: "reach_api w \<Longrightarrow> reach w"
  by (induction rule: reach_api.induct) (auto intro: reach.intros)

lemma render_item_api_item:
  assumes "api_item x"
  shows "\<exists>it. render_item p rs i x = Inr it"
proof -
  obtain ps where x: "x = JObj ps" using assms by (cases x) auto
  obtain t where t: "map_of ps ''title'' = Some (JStr t)" "t \<noteq> []"
    using assms x by (auto split: option.splits jsval.splits)
  obtain n where n: "map_of ps ''pageid'' = Some (JNum n)"
    using assms x by (auto split: option.splits jsval.splits)
  have sn: "opt_str (map_of ps ''snippet'')" and ex: "opt_str (map_of ps ''extract'')"
    using assms x by auto
  show ?thesis
    using t n sn ex
    by (auto simp: x render_item_def js_and_def opt_str_def split: option.splits jsval.splits)
qed

lemma render_list_ok:
  assumes "\<And>i x. x \<in> set xs \<Longrightarrow> \<exists>it. render_item p rs i x = Inr it"
  shows "\<exists>its. render_list p rs i xs = Inr its"
  using assms
proof (induction xs arbitrary: i)
  case (Cons x xs)
  then obtain it where "render_item p rs i x = Inr it" by fastforce
  moreover from Cons obtain its where "render_list p rs (Suc i) xs = Inr its" by fastforce
  ultimately show ?case by simp
qed simp

lemma array_index_words [simp]:
  "array_index ''pageid'' = None" "array_index ''title'' = None" "array_index ''snippet'' = None"
  "array_index ''extract'' = None" "array_index ''0'' = Some 0"
  by (simp_all add: array_index_def parse_nat_def char_digit_def show_nat.simps digit_char_def)

lemma render_results_ok:
  assumes "results_ok (results s)"
  shows "\<exists>v. render s = Inr v"
proof (cases "\<exists>t. results s = JArr [JStr t]")
  case True
  then obtain t where "results s = JArr [JStr t]" by blast
  then show ?thesis by (simp add: render_def results_map_def render_item_def js_and_def Let_def)
next
  case False
  obtain xs where xs: "results s = JArr xs" and all: "list_all api_item xs"
  proof (cases "results s")
    case (JArr ys)
    with assms False have "list_all api_item ys"
      by (cases ys rule: sentinel_only.cases) (auto simp: results_ok_def)
    with JArr that show ?thesis by blast
  qed (use assms in \<open>auto simp: results_ok_def\<close>)
  have "\<exists>its. render_list (langChoice (lang s)) (results s) 0 xs = Inr its"
    using all by (intro render_list_ok render_item_api_item) (simp add: list_all_iff)
  then show ?thesis by (auto simp: render_def results_map_def xs Let_def)
qed


lemma results_ok_empty [simp]: "results_ok (JArr [])"
  by (simp add: results_ok_def)

lemma results_ok_items: "list_all api_item xs \<Longrightarrow> results_ok (JArr xs)"
  by (simp add: results_ok_def)

lemma results_ok_sentinel [simp]: "results_ok (JArr [JStr t])"
  by (simp add: results_ok_def)

lemma results_ok_search_then:
  assumes "api_answer SearchRequest (Resolved v)"
  shows "results_ok (results (fst (search_then p v s)))"
proof -
  obtain hits where h: "js_path v [''data'', ''query'', ''search''] = Inr (JArr hits)" "list_all api_item hits"
    using assms by (auto simp del: js_path.simps split: sum.splits jsval.splits)
  show ?thesis
  proof (cases hits)
    case Nil
    with h show ?thesis by (simp del: js_path.simps add: search_then_def)
  next
    case (Cons x xs)
    with h show ?thesis by (simp del: js_path.simps add: search_then_def results_ok_items)
  qed
qed

lemma results_ok_random_then:
  assumes "api_answer RandomRequest (Resolved v)"
  shows "results_ok (results (fst (random_then v s)))"
proof -
  obtain pages where pages: "js_path v [''data'', ''query'', ''pages''] = Inr pages"
    using assms by (cases "js_path v [''data'', ''query'', ''pages'']") (auto simp del: js_path.simps)
  then obtain ps where ps: "pages = JObj ps"
    using assms by (cases pages) (auto simp del: js_path.simps)
  obtain k pg where p: "js_path v [''data'', ''query'', ''pages''] = Inr (JObj [(k, pg)])" "api_item pg"
  proof (cases ps)
    case (Cons e rest)
    with assms pages ps that show ?thesis
      by (cases e; cases rest) (auto simp del: js_path.simps)
  qed (use assms pages ps in \<open>simp del: js_path.simps\<close>)
  then have "random_page v = Inr pg" by (simp del: js_path.simps add: random_page_def)
  with p show ?thesis by (simp add: random_then_def results_ok_items)
qed

lemma results_ok_complete:
  assumes "results_ok (results s)" and "api_answer (req_kind r) out"
  shows "results_ok (results (fst (complete r out s)))"
proof (cases out)
  case (Resolved v)
  with assms show ?thesis
    by (cases "req_kind r") (auto simp: complete.simps intro: results_ok_search_then results_ok_random_then)
next
  case Rejected
  with assms show ?thesis by (simp add: complete_Rejected)
qed

lemma results_ok_handleSubmit: "results_ok (results s) \<Longrightarrow> results_ok (results (fst (handleSubmit s)))"
  by (simp add: handleSubmit_def mediaWikiSearch_def Let_def)

lemma world_step_results_ok:
  assumes "results_ok (results (app w))" and "api_event w e" and "world_step w e = Some w'"
  shows "results_ok (results (app w'))"
proof (cases e)
  case ClickSearch
  with assms show ?thesis by (auto simp: issue_def results_ok_handleSubmit)
next
  case (Deliver i out)
  with assms show ?thesis by (auto split: if_splits intro: results_ok_complete)
qed (use assms in \<open>auto simp: world_step_simps init_world_def initial_state_def\<close>)

lemma reach_api_results_ok: "reach_api w \<Longrightarrow> results_ok (results (app w))"
proof (induction rule: reach_api.induct)
  case reach_api_init
  show ?case by (simp add: init_world_def initial_state_def)
next
  case (reach_api_step w e w')
  then show ?case by (blast intro: world_step_results_ok)
qed

text \<open>
  C21. As long as every answer the API gives has the documented shape, the page never
  crashes: in every world so reached the render succeeds, with one list item per element
  of the results. (Network failures are allowed; C19 shows that one malformed random
  answer is enough to blank the page.)
\<close>

theorem reach_api_render_total:
  assumes "reach_api w"
  shows "\<exists>v xs. render (app w) = Inr v \<and> results (app w) = JArr xs \<and> length (items v) = length xs"
proof -
  have ok: "results_ok (results (app w))" using assms by (rule reach_api_results_ok)
  then obtain v where v: "render (app w) = Inr v" using render_results_ok by blast
  from ok obtain xs where xs: "results (app w) = JArr xs"
    by (cases "results (app w)") (auto simp: results_ok_def)
  from v xs have "length (items v) = length xs"
    by (auto simp: render_def results_map_def Let_def js_bind_eq_Inr dest: render_list_length)
  with v xs show ?thesis by blast
qed

theorem reach_api_render_total_witness:
  "reach_api cat_result_world \<and>
   (\<exists>v xs. render (app cat_result_world) = Inr v \<and> results (app cat_result_world) = JArr xs \<and>
           length (items v) = length xs)"
proof -
  have "api_run init_world [TypeInput ''cat'', ClickSearch, Deliver 0 (Resolved (search_response [cat_hit]))] =
      Some cat_result_world"
    by (simp add: world_step_simps init_world_def initial_state_def cat_result_world_def handleSubmit_def
        mediaWikiSearch_def search_then_def search_response_def remove_nth_def cat_hit_def opt_str_def)
  then have r: "reach_api cat_result_world" by (rule api_run_reach_api [OF reach_api_init])
  show ?thesis using r reach_api_render_total [OF r] by blast
qed

end
