(* ===== verification/Redesign.thy ===== *)
theory Redesign
  imports Api_Contract
begin

text \<open>
  The abstract search client of the spec (sections 3, 4.1, 5 and 9) and the refinement of
  it by the page. The spec's state has results of a tagged union (\<open>SearchHit\<close>,
  \<open>ArticleExtract\<close>, \<open>NoResults\<close>) instead of the code's mixed array of objects and a
  bare string; its operations are ToggleLanguage, ClearResults, SubmitSearch (a no-op for a
  term that is empty after trimming), FetchRandom and the two successful completions
  (\<open>a_toggle\<close>, \<open>a_clear\<close>, \<open>a_submit\<close>, \<open>a_random\<close>, \<open>a_search_done\<close>,
  \<open>a_random_done\<close>). \<open>a_world\<close> adds the queries in flight, \<open>a_step\<close> is one operation,
  one answer or one failure, and \<open>a_reach\<close> the states the spec's client reaches.
  \<open>abs_world\<close> reads a page state as a spec state: \<open>abs_state\<close> reads the results as
  tagged items, and \<open>abs_request\<close> reads each request from its URL as the query the
  endpoint receives. \<open>reach_spec\<close> restricts the page to the events on which the code
  implements the spec; the simulation theorem C24 is proved from one lemma per handler or
  continuation.
\<close>

datatype result_item =
    SearchHit string string int  \<comment> \<open>title, snippet, page id\<close>
  | ArticleExtract string string int  \<comment> \<open>title, extract, page id\<close>
  | NoResults string  \<comment> \<open>the sentinel text\<close>





definition locale_code :: "bool \<Rightarrow> string" where
  "locale_code l = (if l then ''fr'' else ''en'')"







subsection \<open>The abstract client with its queries in flight\<close>







subsection \<open>Abstraction of the concrete state\<close>

fun abs_item :: "jsval \<Rightarrow> result_item option" where
  "abs_item (JStr t) = Some (NoResults t)"
| "abs_item (JObj ps) =
     (case (map_of ps ''title'', map_of ps ''pageid'', map_of ps ''snippet'', map_of ps ''extract'') of
        (Some (JStr t), Some (JNum n), Some (JStr sn), _) \<Rightarrow> Some (SearchHit t sn n)
      | (Some (JStr t), Some (JNum n), None, Some (JStr ex)) \<Rightarrow> Some (ArticleExtract t ex n)
      | _ \<Rightarrow> None)"
| "abs_item _ = None"

definition abs_results :: "jsval \<Rightarrow> result_item list option" where
  "abs_results r = (case r of JArr xs \<Rightarrow> those (map abs_item xs) | _ \<Rightarrow> None)"




definition profile_of :: "string \<Rightarrow> lang_profile option" where
  "profile_of loc = (if loc = ''en'' then Some langEn else if loc = ''fr'' then Some langFr else None)"




subsection \<open>The runs in which the code implements the spec\<close>





subsection \<open>Refinement\<close>



lemma profile_of_locale_code [simp]: "profile_of (locale_code l) = Some (langChoice l)"
  by (simp add: profile_of_def locale_code_def langChoice_def)






lemma abs_results_empty [simp]: "abs_results (JArr []) = Some []"
  by (simp add: abs_results_def)



















end
