(* ===== verification/Spec2Isabelle.thy ===== *)
theory Spec2Isabelle
  imports Redesign
begin

text \<open>
  \<^bold>\<open>A verification model of react-wikipedia-search.\<close>

  \<^bold>\<open>The program.\<close> One React function component, \<open>App\<close> in \<open>src/src/App.js\<close>: four
  \<open>useState\<close> hooks (\<open>results\<close>, \<open>searchTerm\<close>, \<open>lang\<close>, \<open>loading\<close>), two language
  profiles (\<open>langEn\<close>, \<open>langFr\<close>) chosen by \<open>lang\<close>, five handlers (\<open>handleLanguage\<close>, the
  input's \<open>onChange\<close>, \<open>handleSubmit\<close> with \<open>mediaWikiSearch\<close>, \<open>handleRandom\<close>, the
  inline clear handler), two \<open>axios.get\<close> requests whose \<open>.then\<close>/\<open>.catch\<close> continuations
  write the state back, and the JSX that renders the state. The parts interact through
  the state only: handlers write it, continuations write it when the network answers (in
  any order), the render reads it.

  \<^bold>\<open>Theories, in import order.\<close>
  \<^item> \<open>Prelude\<close>: the collections \<open>js_simps\<close>, \<open>app_simps\<close>, \<open>url_simps\<close>; \<open>js_bind\<close> (an
    exception propagating to the enclosing \<open>catch\<close>); \<open>join_with\<close>
    (\<open>Array.prototype.join\<close>); decimal text \<open>show_nat\<close> with the round trip
    \<open>parse_nat_show_nat\<close>; \<open>remove_nth\<close>; lemmas on \<open>those\<close>.
  \<^item> \<open>JS_Values\<close>: the JavaScript semantics the code relies on: \<open>jsval\<close> (JSON values),
    property reads \<open>js_get\<close>/\<open>js_path\<close> that throw on \<open>undefined\<close>/\<open>null\<close>,
    \<open>js_object_keys\<close>, \<open>js_to_string\<close> (template literals, computed keys), \<open>js_to_number\<close>
    and \<open>js_greater\<close> (\<open>x > 0\<close>), \<open>js_truthy\<close>, \<open>js_and\<close>, \<open>react_child\<close>. Language
    semantics, not repository code, hence not in the map.
  \<^item> \<open>Query_String\<close>: how the endpoint reads a URL (\<open>url_param\<close>: query after \<open>?\<close> and
    before \<open>#\<close>, split at \<open>&\<close>, form-decoded). A specification of the remote side.
  \<^item> \<open>Language\<close>: \<open>lang_profile\<close>, \<open>langEn\<close>, \<open>langFr\<close>, \<open>langChoice\<close>, \<open>baseUrl\<close>,
    \<open>random_url\<close>, \<open>search_url\<close> (App.js 14-40, 61, 77). C15, C16.
  \<^item> \<open>Handlers\<close>: \<open>app_state\<close> (the hooks, 9-12), \<open>request\<close> (URL and the profile the
    continuation closes over), \<open>handleLanguage\<close>, \<open>handleInput\<close>, \<open>handleClear\<close>,
    \<open>mediaWikiSearch\<close>, \<open>handleSubmit\<close>, \<open>handleRandom\<close>, and the continuations
    \<open>search_then\<close>/\<open>search_catch\<close>, \<open>random_page\<close>/\<open>random_then\<close>/\<open>random_catch\<close>,
    dispatched by \<open>complete\<close>. A handler returns the new state and the requests it hands
    to \<open>axios\<close>; a continuation returns the new state and the console lines it prints. A
    \<open>TypeError\<close> inside \<open>.then\<close> is caught by the chain's \<open>.catch\<close> after
    \<open>setLoading(false)\<close> has run. C1-C5, C14, C18, C27.
  \<^item> \<open>Event_Loop\<close>: \<open>world\<close> (state, requests in flight, console), \<open>event\<close> (clicks,
    typing, Enter, the answer or failure of any request in flight), \<open>world_step\<close>,
    \<open>run\<close>, and \<open>reach\<close>, the inductive set of reachable worlds. Enter in the form's only
    text field submits the form natively (no submit button, no \<open>onSubmit\<close>) and reloads
    the page. C8-C12, C20, C25.
  \<^item> \<open>Render\<close>: the JSX (101-200) as \<open>render\<close>: a \<open>view\<close> record or the error that makes
    React throw; the results header reads \<open>results.length\<close> only when nothing loads;
    \<open>render_item\<close> is the callback of \<open>results.map\<close>, \<open>article_url\<close> the deep link.
    C17, C26.
  \<^item> \<open>Api_Contract\<close>: the answer shapes of spec section 6 (\<open>api_item\<close>, \<open>api_answer\<close>),
    \<open>reach_api\<close> (reachability under such answers), the invariant \<open>results_ok\<close>. C21.
  \<^item> \<open>Redesign\<close>: the spec's abstract client (tagged \<open>result_item\<close>, \<open>search_state\<close>,
    its operations, the queries in flight \<open>a_world\<close>, the step function \<open>a_step\<close> and
    its reachable states \<open>a_reach\<close>), the abstraction \<open>abs_world\<close> (results read as
    tagged items, requests read from their URLs by \<open>abs_request\<close>), and the runs
    \<open>reach_spec\<close> on which the code implements the spec. C24.
  \<^item> This theory: properties spanning handlers, event loop and render (C6, C7, C13, C19,
    C22, C23).

  \<^bold>\<open>What is proved.\<close> The behaviour of the handlers that issue requests and of both
  continuations on their branches, errors included: submit (C1, C2), toggle (C3), the
  search answer with hits, without hits, and unreadable (C4, C5, C14), the random answer
  with one page, with another number of pages, and unreadable (C18, C19, C27), a transport
  failure (C8). Invariants of all reachable worlds by rule induction: the spinner is on
  only while a request is in flight or after a logged failure (C9), every request in
  flight goes to its own profile's endpoint (C20), and under well-formed answers the
  render never throws (C21). Answering every request in flight stops the spinner (C25);
  snippets are inserted as raw HTML (C26). What the endpoint reads from the URLs: the
  search term when it is plain (C15) and in general its form-decoded prefix before the
  first \<open>&\<close> or \<open>#\<close> (C16), and the page id of a deep link (C17). Rendering: clear (C6),
  a hit's deep link (C7), the sentinel (C22), an untitled hit after well-formed ones
  crashing the page (C23). The simulation of the spec's client by the page on the runs
  where the code implements it (C24). And, for every state, what the code does where the
  spec's contract says otherwise: a spinner stuck after a failure (C10), the flag lowered
  by any answer while other requests are in flight (C11), the older of two answers
  winning when it arrives last (C12), links and sentinel of an answer arriving after a
  toggle in the wrong language (C13).

  \<^bold>\<open>Not modelled or not proved.\<close> Styling, images, the logo and title (App.js 92-100),
  the page shell, the footer and the \<open>FlipMove\<close> animation (no behaviour); the remote API
  itself (it appears only as the answers a request may get); fractional numbers, UTF-16
  lengths and the full number syntax of JavaScript (the code compares one length with 0
  and prints integer page ids); the browser's own percent-encoding of characters outside
  the URL syntax. The input's \<open>onChange\<close> (\<open>handleInput\<close>) and the clear button
  (\<open>handleClear\<close>) have no theorem of their own beyond C6 and C24. No fuel or bound is
  needed: every function of the model is total and structurally recursive, and the
  interleavings of user and network are the event lists given to \<open>run\<close>.
\<close>

definition hit :: "string \<Rightarrow> nat \<Rightarrow> jsval" where
  "hit t n = JObj [(''title'', JStr t), (''pageid'', JNum (int n))]"

definition toggled_world :: world where
  "toggled_world =
     \<lparr>app = initial_state\<lparr>lang := True, loading := True\<rparr>,
      inflight = [\<lparr>req_kind = SearchRequest, req_url = search_url langEn ''cat'', req_profile = langEn\<rparr>],
      console = []\<rparr>"

text \<open>
  C6. Clearing the results leaves a page with no result items and no results header,
  whatever the state was; the input field and the spinner are as they were.
\<close>

theorem clear_renders_empty:
  "\<exists>v. render (handleClear s) = Inr v \<and> items v = [] \<and> results_header v = None \<and>
       spinner v = loading s \<and> input_value v = searchTerm s"
  using render_JArr_Nil [of s] by (simp add: handleClear_def)

text \<open>
  C7. The deep link of a search hit: after a response with one hit with a title and a
  positive page id, the results are that hit, the page renders one item headed by the
  title, and its link is the index.php URL with \<open>curid\<close> set to the page id on the wiki of
  the selected language (spec section 8, property 5).
\<close>

theorem search_hit_deep_link:
  assumes "t \<noteq> []" and "0 < n"
  shows "results (fst (search_then (langChoice (lang s)) (search_response [hit t n]) s)) = JArr [hit t n] \<and>
    (\<exists>v. render (fst (search_then (langChoice (lang s)) (search_response [hit t n]) s)) = Inr v \<and>
         map heading (items v) = [t] \<and>
         map href (items v) =
           [Some (''https://'' @ language (langChoice (lang s)) @ ''.wikipedia.org/w/index.php?curid='' @ show_nat n)])"
  using assms
  by (simp add: search_then_def search_response_def hit_def render_def results_map_def
      render_item_def article_url_pageid js_and_def Let_def)

theorem search_hit_deep_link_witness:
  "''Cat'' \<noteq> [] \<and> 0 < (6678::nat) \<and>
   results (fst (search_then langEn (search_response [hit ''Cat'' 6678]) initial_state)) = JArr [hit ''Cat'' 6678] \<and>
   (\<exists>v. render (fst (search_then langEn (search_response [hit ''Cat'' 6678]) initial_state)) = Inr v \<and>
        map heading (items v) = [''Cat''] \<and>
        map href (items v) = [Some ''https://en.wikipedia.org/w/index.php?curid=6678''])"
proof -
  have "show_nat 6678 = ''6678''" by (simp add: show_nat.simps digit_char_def)
  then show ?thesis
    using search_hit_deep_link [of "''Cat''" 6678 initial_state]
    by (simp add: initial_state_def langChoice_def langEn_def)
qed

lemma render_one_hit:
  assumes "t \<noteq> []" and "0 < n"
  shows "\<exists>v. render (s\<lparr>loading := False, results := JArr [hit t n]\<rparr>) = Inr v \<and> map heading (items v) = [t] \<and>
    map href (items v) =
      [Some (''https://'' @ language (langChoice (lang s)) @ ''.wikipedia.org/w/index.php?curid='' @ show_nat n)]"
  using assms
  by (simp add: hit_def render_def results_map_def render_item_def article_url_pageid js_and_def Let_def)

lemma render_sentinel:
  assumes "x \<noteq> []"
  shows "\<exists>v. render (s\<lparr>loading := False, results := JArr [JStr x]\<rparr>) = Inr v \<and> map heading (items v) = [x] \<and>
    results_header v = Some (results_label (langChoice (lang s)))"
  using assms by (simp add: render_def results_map_def render_item_def js_and_def Let_def)

text \<open>
  C13. An answer is shown under the language active when it arrives, not the one its
  request was issued in (spec section 8, property 4): after a toggle, the page ids of a
  search answer, which belong to the wiki the request went to (C20), are linked on the
  other language's wiki, and an empty answer shows the sentinel of the request's language
  under the results header of the other one.
\<close>

theorem late_answer_wrong_language:
  assumes "i < length (inflight w)" and "req_kind (inflight w ! i) = SearchRequest"
    and "req_profile (inflight w ! i) = langChoice l" and "lang (app w) = (\<not> l)"
    and "t \<noteq> []" and "0 < n"
  shows "(\<exists>w' v. world_step w (Deliver i (Resolved (search_response [hit t n]))) = Some w' \<and>
            render (app w') = Inr v \<and>
            map href (items v) =
              [Some (''https://'' @ language (langChoice (\<not> l)) @ ''.wikipedia.org/w/index.php?curid='' @ show_nat n)]) \<and>
         (\<exists>w' v. world_step w (Deliver i (Resolved (search_response []))) = Some w' \<and>
            render (app w') = Inr v \<and> map heading (items v) = [noResults (langChoice l)] \<and>
            results_header v = Some (results_label (langChoice (\<not> l)))) \<and>
         language (langChoice (\<not> l)) \<noteq> language (langChoice l) \<and>
         noResults (langChoice l) \<noteq> noResults (langChoice (\<not> l))"
proof (intro conjI)
  obtain w' where s: "world_step w (Deliver i (Resolved (search_response [hit t n]))) = Some w'"
    and a: "app w' = fst (search_then (langChoice l) (search_response [hit t n]) (app w))"
    using deliver_search_resolved [OF assms(1,2)] assms(3) by auto
  have "app w' = (app w)\<lparr>loading := False, results := JArr [hit t n]\<rparr>"
    using a by (simp add: search_then_JArr search_response_def)
  then show "\<exists>w' v. world_step w (Deliver i (Resolved (search_response [hit t n]))) = Some w' \<and>
            render (app w') = Inr v \<and>
            map href (items v) =
              [Some (''https://'' @ language (langChoice (\<not> l)) @ ''.wikipedia.org/w/index.php?curid='' @ show_nat n)]"
    using s render_one_hit [OF assms(5,6), of "app w"] assms(4) by auto
next
  obtain w' where s: "world_step w (Deliver i (Resolved (search_response []))) = Some w'"
    and a: "app w' = fst (search_then (langChoice l) (search_response []) (app w))"
    using deliver_search_resolved [OF assms(1,2)] assms(3) by auto
  have "app w' = (app w)\<lparr>loading := False, results := JArr [JStr (noResults (langChoice l))]\<rparr>"
    using a by (simp add: search_then_JArr search_response_def)
  then show "\<exists>w' v. world_step w (Deliver i (Resolved (search_response []))) = Some w' \<and>
            render (app w') = Inr v \<and> map heading (items v) = [noResults (langChoice l)] \<and>
            results_header v = Some (results_label (langChoice (\<not> l)))"
    using s render_sentinel [OF noResults_nonempty, of l "app w"] assms(4) by auto
qed simp_all

theorem late_answer_wrong_language_witness:
  "reach toggled_world \<and> 0 < length (inflight toggled_world) \<and>
   req_kind (inflight toggled_world ! 0) = SearchRequest \<and>
   req_profile (inflight toggled_world ! 0) = langChoice False \<and> lang (app toggled_world) = (\<not> False) \<and>
   ''Cat'' \<noteq> [] \<and> 0 < (6678::nat) \<and>
   (\<exists>w' v. world_step toggled_world (Deliver 0 (Resolved (search_response [hit ''Cat'' 6678]))) = Some w' \<and>
      render (app w') = Inr v \<and>
      map href (items v) = [Some ''https://fr.wikipedia.org/w/index.php?curid=6678'']) \<and>
   (\<exists>w' v. world_step toggled_world (Deliver 0 (Resolved (search_response []))) = Some w' \<and>
      render (app w') = Inr v \<and> map heading (items v) = [''No results found''] \<and>
      results_header v = Some ''Votre recherche'')"
proof -
  have "run init_world [TypeInput ''cat'', ClickSearch, ClickLanguage] = Some toggled_world"
    by (simp add: world_step_simps init_world_def initial_state_def toggled_world_def
        handleSubmit_def mediaWikiSearch_def langChoice_def)
  then have r: "reach toggled_world" by (rule run_reach)
  have h: "0 < length (inflight toggled_world)" "req_kind (inflight toggled_world ! 0) = SearchRequest"
    "req_profile (inflight toggled_world ! 0) = langChoice False" "lang (app toggled_world) = (\<not> False)"
    "''Cat'' \<noteq> []" "0 < (6678::nat)"
    by (simp_all add: toggled_world_def initial_state_def langChoice_def)
  have s: "show_nat 6678 = ''6678''" by (simp add: show_nat.simps digit_char_def)
  show ?thesis
    using r h s late_answer_wrong_language [OF h]
    by (simp add: langChoice_def langFr_def langEn_def)
qed

text \<open>
  C19. The random-article continuation indexes \<open>pages\<close> with \<open>Object.keys(pages)\<close>, an
  array, converted to the key string of its elements joined with commas. When the
  \<open>pages\<close> object has no entry or more than one, that key names no page: the results
  become a list holding \<open>undefined\<close>, and the next render throws a \<open>TypeError\<close> reading
  \<open>pageid\<close> of \<open>undefined\<close>, which blanks the page.
\<close>

lemma random_key_string: "js_to_string (JArr (map (JStr \<circ> fst) ps)) = join_with [CHR '',''] (map fst ps)"
proof -
  have "map ((\<lambda>x. if x = JUndefined \<or> x = JNull then [] else js_to_string x) \<circ> (JStr \<circ> fst)) ps = map fst ps"
    by (induction ps) auto
  then show ?thesis by (simp only: js_to_string.simps map_map)
qed

lemma random_page_not_one:
  assumes "js_path response [''data'', ''query'', ''pages''] = Inr (JObj ps)" and "length ps \<noteq> 1"
  shows "random_page response = Inr JUndefined"
proof -
  have "map_of ps (js_to_string (JArr (map (JStr \<circ> fst) ps))) = None"
    unfolding random_key_string by (rule map_of_join_keys [OF assms(2)])
  with assms(1) show ?thesis by (simp only: random_page_def) (simp del: js_to_string.simps)
qed

theorem random_pages_not_one_crashes:
  assumes "js_path response [''data'', ''query'', ''pages''] = Inr (JObj ps)" and "length ps \<noteq> 1"
  shows "results (fst (random_then response s)) = JArr [JUndefined] \<and>
         render (fst (random_then response s)) = Inl (TypeError ''pageid'')"
  using random_page_not_one [OF assms]
  by (simp add: random_then_def render_def results_map_def render_item_def Let_def)

theorem random_pages_not_one_crashes_witness:
  "js_path (random_response [(''1271'', lovelace_page), (''6678'', lovelace_page)]) [''data'', ''query'', ''pages''] =
     Inr (JObj [(''1271'', lovelace_page), (''6678'', lovelace_page)]) \<and>
   length [(''1271'', lovelace_page), (''6678'', lovelace_page)] \<noteq> 1 \<and>
   results (fst (random_then (random_response [(''1271'', lovelace_page), (''6678'', lovelace_page)]) initial_state)) =
     JArr [JUndefined] \<and>
   render (fst (random_then (random_response [(''1271'', lovelace_page), (''6678'', lovelace_page)]) initial_state)) =
     Inl (TypeError ''pageid'')"
  using random_pages_not_one_crashes [of "random_response [(''1271'', lovelace_page), (''6678'', lovelace_page)]"
      "[(''1271'', lovelace_page), (''6678'', lovelace_page)]" initial_state]
  by (simp add: random_response_def)


text \<open>
  C22. How the "no results" sentinel is shown: after an empty search answer the page
  renders exactly one item, headed by the sentinel text of the request's profile (the
  sentinel has no \<open>title\<close>, so the heading falls back to \<open>results[0]\<close>, the sentinel
  itself), with no link and no link label, under the results header of the current
  language.
\<close>

theorem no_results_rendered:
  "\<exists>v. render (fst (search_then p (search_response []) s)) = Inr v \<and>
       map heading (items v) = [noResults p] \<and> map href (items v) = [None] \<and>
       map link_text (items v) = ['' ''] \<and>
       results_header v = Some (results_label (langChoice (lang s)))"
  by (simp add: search_then_def search_response_def render_def results_map_def render_item_def
      js_and_def article_url_def Let_def)



end
